theory Spec2Isabelle
  imports Main "HOL-Library.Word"
begin

section \<open>Shared vocabulary of the defense modules\<close>

text \<open>
  The modules exchange severities, defense modes and actions as the JavaScript string
  literals \<open>'low' | 'medium' | 'high' | 'critical'\<close>, \<open>'NORMAL' | 'STRICT' | 'LOCKDOWN'\<close>
  and \<open>'warn' | 'mute' | 'kick'\<close>.  They are modelled as enumerations.
\<close>

datatype severity = Low | Medium | High | Critical

datatype defense_mode = NORMAL | STRICT | LOCKDOWN

datatype action = Warn | Mute | Kick

section \<open>Action matrices (AntiVirtex.determineAction, AntiToxic.determineAction)\<close>

text \<open>
  Both functions look the action up in an object literal keyed by mode and then by
  severity: \<open>actionMatrix[defenseMode]?.[severity] || 'warn'\<close>.  The object literals are
  association lists here, the optional chaining and the \<open>||\<close> fallback are the
  \<open>None\<close> branches.
\<close>

definition lookupAction :: "(defense_mode \<times> (severity \<times> action) list) list
    \<Rightarrow> defense_mode \<Rightarrow> severity \<Rightarrow> action" where
  "lookupAction actionMatrix defenseMode sev =
     (case map_of actionMatrix defenseMode of
        None \<Rightarrow> Warn
      | Some row \<Rightarrow> (case map_of row sev of None \<Rightarrow> Warn | Some a \<Rightarrow> a))"

definition AntiVirtex_actionMatrix :: "(defense_mode \<times> (severity \<times> action) list) list" where
  "AntiVirtex_actionMatrix =
     [(NORMAL,   [(Low, Warn), (Medium, Warn), (High, Warn)]),
      (STRICT,   [(Low, Warn), (Medium, Warn), (High, Kick)]),
      (LOCKDOWN, [(Low, Warn), (Medium, Kick), (High, Kick)])]"

definition AntiVirtex_determineAction :: "severity \<Rightarrow> defense_mode \<Rightarrow> action" where
  "AntiVirtex_determineAction sev defenseMode =
     (if sev = Critical then Kick
      else lookupAction AntiVirtex_actionMatrix defenseMode sev)"

definition AntiToxic_actionMatrix :: "(defense_mode \<times> (severity \<times> action) list) list" where
  "AntiToxic_actionMatrix =
     [(NORMAL,   [(Low, Warn), (Medium, Warn), (High, Warn)]),
      (STRICT,   [(Low, Warn), (Medium, Mute), (High, Mute)]),
      (LOCKDOWN, [(Low, Mute), (Medium, Kick), (High, Kick)])]"

definition AntiToxic_determineAction :: "severity \<Rightarrow> defense_mode \<Rightarrow> action" where
  "AntiToxic_determineAction sev defenseMode =
     lookupAction AntiToxic_actionMatrix defenseMode sev"

text \<open>
  The matrix as the specification words it, for comparison with the two above:
  NORMAL: low/medium/high give warn; STRICT: low gives warn, medium/high give mute;
  LOCKDOWN: low gives warn, medium/high give kick; critical gives kick in every mode.
\<close>

fun spec_actionMatrix :: "severity \<Rightarrow> defense_mode \<Rightarrow> action" where
  "spec_actionMatrix Critical _ = Kick"
| "spec_actionMatrix _ NORMAL = Warn"
| "spec_actionMatrix Low _ = Warn"
| "spec_actionMatrix _ STRICT = Mute"
| "spec_actionMatrix _ LOCKDOWN = Kick"

section \<open>Data model\<close>

text \<open>
  Message bodies are JavaScript strings, sequences of UTF-16 code units; \<open>length\<close> is
  \<open>String.prototype.length\<close>.  User, group and command identifiers are plain strings.
\<close>

type_synonym message = "16 word list"

text \<open>\<open>sender.split('@')[0]\<close>: the part of a JID before the first \<open>@\<close>.\<close>

definition numberOf :: "string \<Rightarrow> string" where
  "numberOf jid = takeWhile (\<lambda>c. c \<noteq> CHR ''@'') jid"

datatype bot_mode = PUBLIC | SELF

text \<open>
  Per-group settings object.  A key may be absent (\<open>None\<close>); the modules test
  \<open>settings.antiX !== false\<close>, the join handler tests \<open>!groupSettings.welcome\<close>.
\<close>

record group_settings =
  gs_antiLink :: "bool option"
  gs_antiSpam :: "bool option"
  gs_antiToxic :: "bool option"
  gs_antiVirtex :: "bool option"
  gs_welcome :: "bool option"
  gs_goodbye :: "bool option"
  gs_geoRestriction :: "bool option"
  gs_defenseMode :: "defense_mode option"

text \<open>The part of the LowDB document the modelled code reads and writes.\<close>

record database =
  authors :: "string list"
  owners :: "string list"
  blacklisted :: "string list"
  disabled :: "string list"
  muted :: "string \<rightharpoonup> int \<times> string"
  warned :: "string \<rightharpoonup> nat"
  cooldowns :: "string \<rightharpoonup> (string \<rightharpoonup> int)"
  protected :: "string list"
  whitelisted :: "string list"
  groupSettings :: "string \<rightharpoonup> group_settings"
  botMode :: "bot_mode option"
  globalDefenseMode :: "defense_mode option"
  commandUsage :: "string \<rightharpoonup> nat"
  violations :: "string \<rightharpoonup> nat"
  errorLog :: "int list"

text \<open>Values of \<open>config.get('security. ...')\<close> that the modelled code reads.\<close>

record bot_config =
  cooldownCommand :: int
  antiSpamThreshold :: nat
  antiSpamTime :: int
  maxMessageLength :: nat
  maxWarnConfig :: nat

definition defaultConfig :: bot_config where
  "defaultConfig = \<lparr> cooldownCommand = 20, antiSpamThreshold = 5, antiSpamTime = 10,
                      maxMessageLength = 250, maxWarnConfig = 3 \<rparr>"

text \<open>Texts the bot sends, one constructor per template with the values it interpolates.\<close>

datatype notice =
    VirtexWarnNotice string nat bool
  | VirtexKickNotice string
  | ToxicWarnNotice string nat bool
  | ToxicMuteNotice string
  | ToxicKickNotice string
  | LinkWarnNotice string nat bool
  | SpamMuteNotice string int
  | BlacklistKickNotice string
  | GeoKickNotice string
  | WelcomeNotice string
  | DisabledNotice
  | BlacklistedNotice
  | SelfModeNotice
  | AuthorOnlyNotice
  | OwnerOnlyNotice
  | EmptyNotice
  | AuthErrorNotice
  | CooldownNotice string int
  | ValidationNotice string
  | UndefinedNotice
  | RateLimitNotice
  | CommandErrorNotice

text \<open>
  Calls made to the transport (\<open>bot.deleteMessage\<close>, \<open>bot.kickParticipant\<close>,
  \<open>bot.sendMessage\<close>) and, for the two pipelines, the steps they start, in the order
  in which the code makes them.
\<close>

datatype call =
    DeleteMessage string nat
  | KickParticipant string "string list"
  | SendMessage string notice
  | DetectCall string
  | HandleCall string
  | AuthCheck
  | CooldownCheck
  | ValidationCheck
  | RateLimitCheck
  | HandlerCall string
  | UsageIncrement string
  | CooldownCommit string

text \<open>
  The process state: the database, the in-memory trackers of the cooldown middleware and
  of the anti-spam module, the \<open>lastIndex\<close> fields of the four global regular
  expressions of the anti-virtex module, the configuration, the log of calls, and
  whether the transport currently accepts \<open>sendMessage\<close> (BotCore.sendMessage rethrows
  a socket error; deleteMessage and kickParticipant catch theirs and return false).
\<close>

record engine_stats =
  totalChecks :: nat
  violationsSeen :: nat
  blockedCount :: nat

record world =
  db :: database
  cfg :: bot_config
  globalCooldowns :: "string \<rightharpoonup> int list"
  messageTracker :: "string \<rightharpoonup> (int \<times> message) list"
  virtexLastIndex :: "nat list"
  stats :: engine_stats
  calls :: "call list"
  sendOk :: bool

section \<open>Database accessors (Database.js)\<close>

definition isAuthor :: "database \<Rightarrow> string \<Rightarrow> bool" where
  "isAuthor d number = (number \<in> set (authors d))"

definition isOwner :: "database \<Rightarrow> string \<Rightarrow> bool" where
  "isOwner d number = (number \<in> set (owners d))"

definition isAuthorOrOwner :: "database \<Rightarrow> string \<Rightarrow> bool" where
  "isAuthorOrOwner d number = (isAuthor d number \<or> isOwner d number)"

definition isBlacklisted :: "database \<Rightarrow> string \<Rightarrow> bool" where
  "isBlacklisted d number = (number \<in> set (blacklisted d))"

definition isDisabled :: "database \<Rightarrow> string \<Rightarrow> bool" where
  "isDisabled d number = (number \<in> set (disabled d))"

definition isProtected :: "database \<Rightarrow> string \<Rightarrow> bool" where
  "isProtected d groupId = (groupId \<in> set (protected d))"

definition isWhitelisted :: "database \<Rightarrow> string \<Rightarrow> bool" where
  "isWhitelisted d groupId = (groupId \<in> set (whitelisted d))"

definition getBotMode :: "database \<Rightarrow> bot_mode" where
  "getBotMode d = (case botMode d of None \<Rightarrow> PUBLIC | Some m \<Rightarrow> m)"

definition getDefenseMode :: "database \<Rightarrow> defense_mode" where
  "getDefenseMode d = (case globalDefenseMode d of None \<Rightarrow> NORMAL | Some m \<Rightarrow> m)"

definition getDefaultGroupSettings :: group_settings where
  "getDefaultGroupSettings =
     \<lparr> gs_antiLink = Some True, gs_antiSpam = Some True, gs_antiToxic = Some True,
       gs_antiVirtex = Some True, gs_welcome = Some True, gs_goodbye = Some True,
       gs_geoRestriction = Some True, gs_defenseMode = Some NORMAL \<rparr>"

definition getGroupSettings :: "database \<Rightarrow> string \<Rightarrow> group_settings" where
  "getGroupSettings d groupId =
     (case groupSettings d groupId of None \<Rightarrow> getDefaultGroupSettings | Some s \<Rightarrow> s)"

text \<open>\<open>groupSettings.defenseMode || db.getDefenseMode()\<close>, as every handler computes it.\<close>

definition groupDefenseMode :: "database \<Rightarrow> string \<Rightarrow> defense_mode" where
  "groupDefenseMode d groupId =
     (case gs_defenseMode (getGroupSettings d groupId) of
        None \<Rightarrow> getDefenseMode d | Some m \<Rightarrow> m)"

definition getWarnCount :: "database \<Rightarrow> string \<Rightarrow> nat" where
  "getWarnCount d number = (case warned d number of None \<Rightarrow> 0 | Some c \<Rightarrow> c)"

definition addWarn :: "string \<Rightarrow> database \<Rightarrow> nat \<times> database" where
  "addWarn number d =
     (let count = getWarnCount d number + 1
      in (count, d\<lparr>warned := (warned d)(number \<mapsto> count)\<rparr>))"

definition resetWarn :: "string \<Rightarrow> database \<Rightarrow> database" where
  "resetWarn number d = d\<lparr>warned := (warned d)(number := None)\<rparr>"

definition addMute :: "int \<Rightarrow> string \<Rightarrow> int \<Rightarrow> string \<Rightarrow> database \<Rightarrow> database" where
  "addMute now number duration reason d =
     d\<lparr>muted := (muted d)(number \<mapsto> (now + duration * 60 * 1000, reason))\<rparr>"

definition incrementViolation :: "string \<Rightarrow> database \<Rightarrow> database" where
  "incrementViolation type d =
     d\<lparr>violations := (violations d)(type \<mapsto>
          (case violations d type of None \<Rightarrow> 0 | Some c \<Rightarrow> c) + 1)\<rparr>"

definition incrementCommandUsage :: "string \<Rightarrow> database \<Rightarrow> database" where
  "incrementCommandUsage command d =
     d\<lparr>commandUsage := (commandUsage d)(command \<mapsto>
          (case commandUsage d command of None \<Rightarrow> 0 | Some c \<Rightarrow> c) + 1)\<rparr>"

text \<open>\<open>logError\<close> appends an entry and keeps the last 100.\<close>

definition logError :: "int \<Rightarrow> database \<Rightarrow> database" where
  "logError now d =
     (let l = errorLog d @ [now]
      in d\<lparr>errorLog := (if length l > 100 then tl l else l)\<rparr>)"

definition userCooldowns :: "database \<Rightarrow> string \<Rightarrow> (string \<rightharpoonup> int)" where
  "userCooldowns d number = (case cooldowns d number of None \<Rightarrow> Map.empty | Some m \<Rightarrow> m)"

definition removeCooldown :: "string \<Rightarrow> string \<Rightarrow> database \<Rightarrow> database" where
  "removeCooldown number command d =
     d\<lparr>cooldowns := (cooldowns d)(number \<mapsto> (userCooldowns d number)(command := None))\<rparr>"

text \<open>
  \<open>isOnCooldown\<close> returns \<open>false\<close> or the remaining milliseconds; a stored expiry of 0 is
  falsy and counts as absent; an expired entry is removed on the way.
\<close>

definition isOnCooldown :: "int \<Rightarrow> string \<Rightarrow> string \<Rightarrow> database \<Rightarrow> int option \<times> database" where
  "isOnCooldown now number command d =
     (case userCooldowns d number command of
        None \<Rightarrow> (None, d)
      | Some cooldown \<Rightarrow>
          if cooldown = 0 then (None, d)
          else let remaining = cooldown - now
               in if remaining \<le> 0 then (None, removeCooldown number command d)
                  else (Some remaining, d))"

definition setCooldown :: "int \<Rightarrow> string \<Rightarrow> string \<Rightarrow> int \<Rightarrow> database \<Rightarrow> database" where
  "setCooldown now number command cooldownTime d =
     d\<lparr>cooldowns := (cooldowns d)(number \<mapsto>
          (userCooldowns d number)(command \<mapsto> now + cooldownTime * 1000))\<rparr>"

section \<open>Transport (BotCore)\<close>

definition deleteMessage :: "string \<Rightarrow> nat \<Rightarrow> world \<Rightarrow> world" where
  "deleteMessage jid messageKey w = w\<lparr>calls := calls w @ [DeleteMessage jid messageKey]\<rparr>"

definition kickParticipant :: "string \<Rightarrow> string list \<Rightarrow> world \<Rightarrow> world" where
  "kickParticipant groupJid participants w =
     w\<lparr>calls := calls w @ [KickParticipant groupJid participants]\<rparr>"

text \<open>\<open>sendMessage\<close> returns whether it succeeded; \<open>False\<close> is the rethrown error.\<close>

definition sendMessage :: "string \<Rightarrow> notice \<Rightarrow> world \<Rightarrow> bool \<times> world" where
  "sendMessage jid content w = (sendOk w, w\<lparr>calls := calls w @ [SendMessage jid content]\<rparr>)"

section \<open>Detection verdicts\<close>

text \<open>
  The detection objects the modules return: \<open>detected\<close>, the \<open>type\<close> string, the
  \<open>severity\<close> (absent in the verdicts of the link and spam modules) and the \<open>count\<close>.
\<close>

record detection =
  detected :: bool
  dtype :: string
  dseverity :: "severity option"
  dcount :: nat

definition notDetected :: detection where
  "notDetected = \<lparr> detected = False, dtype = ''none'', dseverity = None, dcount = 0 \<rparr>"

section \<open>The regular expression \<open>/(.)\1{9,}/g\<close>\<close>

text \<open>
  Without the \<open>s\<close> and \<open>u\<close> flags the dot matches one code unit other than the line
  terminators LF, CR, U+2028 and U+2029.
\<close>

definition lineTerminator :: "16 word \<Rightarrow> bool" where
  "lineTerminator c = (c = 0x0A \<or> c = 0x0D \<or> c = 0x2028 \<or> c = 0x2029)"

text \<open>
  \<open>message.match(/(.)\1{9,}/g)\<close>: scanning from the left, a match starts at a code unit
  that the dot accepts and that is followed by at least nine copies of itself; the
  greedy quantifier takes every further copy, and the scan resumes after the match.
  Where no match starts, the scan moves one code unit on.  An empty result stands for
  \<open>null\<close>.
\<close>

function repeatedMatches :: "message \<Rightarrow> message list" where
  "repeatedMatches [] = []"
| "repeatedMatches (c # rest) =
     (if \<not> lineTerminator c \<and> 9 \<le> length (takeWhile (\<lambda>x. x = c) rest)
      then (c # takeWhile (\<lambda>x. x = c) rest) # repeatedMatches (dropWhile (\<lambda>x. x = c) rest)
      else repeatedMatches rest)"
  by pat_completeness auto
termination
  by (relation "measure length") (auto simp: length_dropWhile_le less_Suc_eq_le)

section \<open>AntiVirtex\<close>

record virtex_settings =
  maxLength :: nat
  repeatedCharThreshold :: nat
  emojiThreshold :: nat
  invisibleCharThreshold :: nat

text \<open>\<open>maxLength: config.get('security.maxMessageLength') || 250\<close>.\<close>

definition AntiVirtex_settings :: "bot_config \<Rightarrow> virtex_settings" where
  "AntiVirtex_settings c =
     \<lparr> maxLength = (if maxMessageLength c = 0 then 250 else maxMessageLength c),
       repeatedCharThreshold = 50, emojiThreshold = 30, invisibleCharThreshold = 20 \<rparr>"

definition calculateLengthSeverity :: "nat \<Rightarrow> severity" where
  "calculateLengthSeverity len =
     (if len > 1000 then Critical
      else if len > 500 then High
      else if len > 250 then Medium
      else Low)"

definition AntiVirtex_checkLength :: "virtex_settings \<Rightarrow> message \<Rightarrow> detection" where
  "AntiVirtex_checkLength st msg =
     (if length msg > maxLength st
      then \<lparr> detected = True, dtype = ''excessive_length'',
             dseverity = Some (calculateLengthSeverity (length msg)), dcount = length msg \<rparr>
      else notDetected)"

text \<open>\<open>Math.max(...matches.map(m => m.length))\<close> over a non-empty array.\<close>

definition longestOf :: "message list \<Rightarrow> nat" where
  "longestOf ms = fold max (map length ms) 0"

definition AntiVirtex_checkRepeatedCharacters :: "virtex_settings \<Rightarrow> message \<Rightarrow> detection" where
  "AntiVirtex_checkRepeatedCharacters st msg =
     (let ms = repeatedMatches msg
      in if ms \<noteq> [] \<and> longestOf ms \<ge> repeatedCharThreshold st
         then \<lparr> detected = True, dtype = ''repeated_characters'',
                dseverity = Some High, dcount = longestOf ms \<rparr>
         else notDetected)"

definition isHighSurrogate :: "16 word \<Rightarrow> bool" where
  "isHighSurrogate c = (0xD800 \<le> c \<and> c \<le> 0xDBFF)"

definition isLowSurrogate :: "16 word \<Rightarrow> bool" where
  "isLowSurrogate c = (0xDC00 \<le> c \<and> c \<le> 0xDFFF)"

text \<open>
  Reading a string by code points, as a regular expression with the \<open>u\<close> flag does:
  a high surrogate followed by a low one is one code point of width 2, every other
  code unit is a code point of width 1.
\<close>

fun codePoints :: "message \<Rightarrow> (nat \<times> nat) list" where
  "codePoints [] = []"
| "codePoints [c] = [(unat c, 1)]"
| "codePoints (c # d # rest) =
     (if isHighSurrogate c \<and> isLowSurrogate d
      then (0x10000 + (unat c - 0xD800) * 0x400 + (unat d - 0xDC00), 2) # codePoints rest
      else (unat c, 1) # codePoints (d # rest))"

definition emojiClass :: "nat \<Rightarrow> bool" where
  "emojiClass cp =
     ((0x1F600 \<le> cp \<and> cp \<le> 0x1F64F) \<or> (0x1F300 \<le> cp \<and> cp \<le> 0x1F5FF)
      \<or> (0x1F680 \<le> cp \<and> cp \<le> 0x1F6FF) \<or> (0x1F1E0 \<le> cp \<and> cp \<le> 0x1F1FF)
      \<or> (0x2600 \<le> cp \<and> cp \<le> 0x26FF) \<or> (0x2700 \<le> cp \<and> cp \<le> 0x27BF))"

definition AntiVirtex_checkEmojiFlood :: "virtex_settings \<Rightarrow> message \<Rightarrow> detection" where
  "AntiVirtex_checkEmojiFlood st msg =
     (let emojiCount = length (filter emojiClass (map fst (codePoints msg)))
      in if emojiCount \<ge> emojiThreshold st
         then \<lparr> detected = True, dtype = ''emoji_flood'',
                dseverity = Some Medium, dcount = emojiCount \<rparr>
         else notDetected)"

definition invisibleChars :: "16 word list" where
  "invisibleChars = [0x200B, 0x200C, 0x200D, 0xFEFF, 0x2060, 0x180E]"

definition AntiVirtex_checkInvisibleCharacters :: "virtex_settings \<Rightarrow> message \<Rightarrow> detection" where
  "AntiVirtex_checkInvisibleCharacters st msg =
     (let invisibleCount =
            fold (\<lambda>ch n. n + length (filter (\<lambda>x. x = ch) msg)) invisibleChars 0
      in if invisibleCount \<ge> invisibleCharThreshold st
         then \<lparr> detected = True, dtype = ''invisible_characters'',
                dseverity = Some High, dcount = invisibleCount \<rparr>
         else notDetected)"

text \<open>
  The known patterns are all of the shape \<open>[class]{n,}\<close>: a character class, a least
  number of repetitions, and whether the \<open>u\<close> flag is set.  All four carry the \<open>g\<close>
  flag, so \<open>pattern.test\<close> starts at the pattern's \<open>lastIndex\<close> and stores the end of
  the match there, or 0 after a failed search.
\<close>

record regex_pattern =
  unicodeFlag :: bool
  charClass :: "nat \<Rightarrow> bool"
  minRepeat :: nat

definition virtexPatterns :: "regex_pattern list" where
  "virtexPatterns =
     [\<lparr> unicodeFlag = False,
         charClass = (\<lambda>c. (0x0300 \<le> c \<and> c \<le> 0x036F) \<or> (0x0483 \<le> c \<and> c \<le> 0x0489)),
         minRepeat = 10 \<rparr>,
      \<lparr> unicodeFlag = False,
         charClass = (\<lambda>c. (0x200B \<le> c \<and> c \<le> 0x200F) \<or> (0x202A \<le> c \<and> c \<le> 0x202E)
                          \<or> (0x2060 \<le> c \<and> c \<le> 0x2069)),
         minRepeat = 5 \<rparr>,
      \<lparr> unicodeFlag = True,
         charClass = (\<lambda>c. 0x1F600 \<le> c \<and> c \<le> 0x1F64F),
         minRepeat = 20 \<rparr>,
      \<lparr> unicodeFlag = False,
         charClass = (\<lambda>c. c = 0x200B \<or> c = 0x200C \<or> c = 0x200D \<or> c = 0xFEFF),
         minRepeat = 5 \<rparr>]"

definition regexChars :: "regex_pattern \<Rightarrow> message \<Rightarrow> (nat \<times> nat) list" where
  "regexChars p s = (if unicodeFlag p then codePoints s else map (\<lambda>c. (unat c, 1)) s)"

text \<open>
  The search loop of \<open>RegExpBuiltinExec\<close> on the rest \<open>s\<close> of the string from index
  \<open>i\<close>: try a greedy match here; on failure advance by one character; past the end
  the search fails and \<open>lastIndex\<close> becomes 0.
\<close>

function regexSearch :: "regex_pattern \<Rightarrow> message \<Rightarrow> nat \<Rightarrow> bool \<times> nat" where
  "regexSearch p [] i = (if minRepeat p = 0 then (True, i) else (False, 0))"
| "regexSearch p (c # rest) i =
     (let run = takeWhile (\<lambda>t. charClass p (fst t)) (regexChars p (c # rest))
      in if length run \<ge> minRepeat p then (True, i + sum_list (map snd run))
         else (let wd = snd (hd (regexChars p (c # rest)))
               in regexSearch p (drop (wd - 1) rest) (i + wd)))"
  by pat_completeness auto
termination
  by (relation "measure (\<lambda>(p, s, i). length s)") auto

text \<open>
  Index \<open>i\<close> of the string lies inside a surrogate pair: the code unit there is a low
  surrogate and the one before it a high surrogate.
\<close>

definition midSurrogatePair :: "message \<Rightarrow> nat \<Rightarrow> bool" where
  "midSurrogatePair msg i =
     (0 < i \<and> i < length msg \<and> isHighSurrogate (msg ! (i - 1)) \<and> isLowSurrogate (msg ! i))"

text \<open>
  \<open>pattern.test(message)\<close> for a pattern with the \<open>g\<close> flag.  A \<open>lastIndex\<close> past the
  end fails at once.  With the \<open>u\<close> flag the first match is tried at the code point
  that contains the code unit at \<open>lastIndex\<close>, which starts one code unit earlier when
  \<open>lastIndex\<close> lies inside a surrogate pair; if that fails, the search goes on from
  \<open>lastIndex + 1\<close>.
\<close>

definition regexTest :: "regex_pattern \<Rightarrow> nat \<Rightarrow> message \<Rightarrow> bool \<times> nat" where
  "regexTest p lastIndex msg =
     (if lastIndex > length msg then (False, 0)
      else if unicodeFlag p \<and> midSurrogatePair msg lastIndex then
        (let run = takeWhile (\<lambda>t. charClass p (fst t))
                     (regexChars p (drop (lastIndex - 1) msg))
         in if length run \<ge> minRepeat p
            then (True, lastIndex - 1 + sum_list (map snd run))
            else regexSearch p (drop (lastIndex + 1) msg) (lastIndex + 1))
      else regexSearch p (drop lastIndex msg) lastIndex)"

text \<open>
  \<open>checkVirtexPatterns\<close>: the loop returns at the first pattern that matches; the
  patterns after it are not run and keep their \<open>lastIndex\<close>.
\<close>

fun testPatterns :: "regex_pattern list \<Rightarrow> nat list \<Rightarrow> message \<Rightarrow> bool \<times> nat list" where
  "testPatterns (p # ps) (li # lis) msg =
     (let (m, li') = regexTest p li msg
      in if m then (True, li' # lis)
         else (let (r, lis') = testPatterns ps lis msg in (r, li' # lis')))"
| "testPatterns _ lis msg = (False, lis)"

definition AntiVirtex_checkVirtexPatterns :: "nat list \<Rightarrow> message \<Rightarrow> detection \<times> nat list" where
  "AntiVirtex_checkVirtexPatterns lis msg =
     (let (m, lis') = testPatterns virtexPatterns lis msg
      in if m then (\<lparr> detected = True, dtype = ''virtex_pattern'',
                       dseverity = Some Critical, dcount = 0 \<rparr>, lis')
         else (notDetected, lis'))"

text \<open>
  \<open>AntiVirtex.detect\<close>: the checks in the order of the source, the first positive
  verdict is returned.  The second component is the \<open>lastIndex\<close> state of the patterns
  after the call.
\<close>

definition AntiVirtex_detect :: "virtex_settings \<Rightarrow> nat list \<Rightarrow> message \<Rightarrow> detection \<times> nat list" where
  "AntiVirtex_detect st lis msg =
     (if msg = [] then (notDetected, lis)
      else let lengthCheck = AntiVirtex_checkLength st msg
      in if detected lengthCheck then (lengthCheck, lis)
      else let repeatedCheck = AntiVirtex_checkRepeatedCharacters st msg
      in if detected repeatedCheck then (repeatedCheck, lis)
      else let emojiCheck = AntiVirtex_checkEmojiFlood st msg
      in if detected emojiCheck then (emojiCheck, lis)
      else let invisibleCheck = AntiVirtex_checkInvisibleCharacters st msg
      in if detected invisibleCheck then (invisibleCheck, lis)
      else AntiVirtex_checkVirtexPatterns lis msg)"

text \<open>
  \<open>this.determineAction(virtexInfo.severity, defenseMode)\<close> as the handler calls it; a
  verdict without severity takes the \<open>|| 'warn'\<close> fallback.
\<close>

definition AntiVirtex_actionFor :: "detection \<Rightarrow> defense_mode \<Rightarrow> action" where
  "AntiVirtex_actionFor virtexInfo defenseMode =
     (case dseverity virtexInfo of
        None \<Rightarrow> Warn
      | Some sev \<Rightarrow> AntiVirtex_determineAction sev defenseMode)"

text \<open>
  \<open>AntiVirtex.handle\<close>.  The whole body is inside \<open>try\<close>: when \<open>sendMessage\<close> throws,
  the statistics update after it is skipped; the warning and the kick before it stay.
\<close>

definition AntiVirtex_handle :: "string \<Rightarrow> string \<Rightarrow> nat \<Rightarrow> detection \<Rightarrow> world \<Rightarrow> world" where
  "AntiVirtex_handle groupId sender messageKey virtexInfo w0 =
     (let senderNumber = numberOf sender;
          defenseMode = groupDefenseMode (db w0) groupId;
          w1 = deleteMessage groupId messageKey w0;
          act = AntiVirtex_actionFor virtexInfo defenseMode
      in if act = Warn then
           (let (warnCount, d2) = addWarn senderNumber (db w1);
                w2 = w1\<lparr>db := d2\<rparr>;
                maxWarn = 3;
                w3 = (if warnCount \<ge> maxWarn
                      then (let w' = kickParticipant groupId [sender] w2
                            in w'\<lparr>db := resetWarn senderNumber (db w')\<rparr>)
                      else w2);
                (ok, w4) = sendMessage groupId
                             (VirtexWarnNotice senderNumber warnCount (warnCount \<ge> maxWarn)) w3
            in if ok then w4\<lparr>db := incrementViolation ''antiVirtex'' (db w4)\<rparr> else w4)
         else if act = Kick then
           (let w2 = kickParticipant groupId [sender] w1;
                (ok, w3) = sendMessage groupId (VirtexKickNotice senderNumber) w2
            in if ok then w3\<lparr>db := incrementViolation ''antiVirtex'' (db w3)\<rparr> else w3)
         else w1\<lparr>db := incrementViolation ''antiVirtex'' (db w1)\<rparr>)"


section \<open>AntiToxic and AntiLink: violation handlers\<close>

text \<open>
  \<open>AntiToxic.handle\<close>: warn, mute (ten minutes) or kick, as its own matrix says.  The
  warning text interpolates \<open>toxicInfo.severity.toUpperCase()\<close>; on a verdict without
  severity that throws after the warning was counted, and the handler ends there.
\<close>

definition AntiToxic_handle :: "int \<Rightarrow> string \<Rightarrow> string \<Rightarrow> nat \<Rightarrow> detection \<Rightarrow> world \<Rightarrow> world" where
  "AntiToxic_handle now groupId sender messageKey toxicInfo w0 =
     (let senderNumber = numberOf sender;
          defenseMode = groupDefenseMode (db w0) groupId;
          w1 = deleteMessage groupId messageKey w0
      in case dseverity toxicInfo of
           None \<Rightarrow> w1\<lparr>db := snd (addWarn senderNumber (db w1))\<rparr>
         | Some sev \<Rightarrow>
             (let act = AntiToxic_determineAction sev defenseMode
              in if act = Warn then
                   (let (warnCount, d2) = addWarn senderNumber (db w1);
                        w2 = w1\<lparr>db := d2\<rparr>;
                        maxWarn = 3;
                        w3 = (if warnCount \<ge> maxWarn
                              then (let w' = kickParticipant groupId [sender] w2
                                    in w'\<lparr>db := resetWarn senderNumber (db w')\<rparr>)
                              else w2);
                        (ok, w4) = sendMessage groupId
                                     (ToxicWarnNotice senderNumber warnCount (warnCount \<ge> maxWarn)) w3
                    in if ok then w4\<lparr>db := incrementViolation ''antiToxic'' (db w4)\<rparr> else w4)
                 else if act = Mute then
                   (let w2 = w1\<lparr>db := addMute now senderNumber 10 ''Toxic language'' (db w1)\<rparr>;
                        (ok, w3) = sendMessage groupId (ToxicMuteNotice senderNumber) w2
                    in if ok then w3\<lparr>db := incrementViolation ''antiToxic'' (db w3)\<rparr> else w3)
                 else
                   (let w2 = kickParticipant groupId [sender] w1;
                        (ok, w3) = sendMessage groupId (ToxicKickNotice senderNumber) w2
                    in if ok then w3\<lparr>db := incrementViolation ''antiToxic'' (db w3)\<rparr> else w3)))"

text \<open>
  \<open>AntiLink.getDefenseModeConfig(mode).action\<close>: the link module has no severity; the
  mode alone selects the action.
\<close>

definition AntiLink_modeAction :: "defense_mode \<Rightarrow> action" where
  "AntiLink_modeAction m = (case m of NORMAL \<Rightarrow> Warn | STRICT \<Rightarrow> Mute | LOCKDOWN \<Rightarrow> Kick)"

text \<open>
  \<open>AntiLink.handle\<close>.  In the mute and kick branches the notice is declared \<open>const\<close>
  and then extended with \<open>+=\<close>, which throws a TypeError: the mute or the kick is done,
  no notice is sent and the statistics update is skipped.
\<close>

definition AntiLink_handle :: "int \<Rightarrow> string \<Rightarrow> string \<Rightarrow> nat \<Rightarrow> world \<Rightarrow> world" where
  "AntiLink_handle now groupId sender messageKey w0 =
     (let senderNumber = numberOf sender;
          act = AntiLink_modeAction (groupDefenseMode (db w0) groupId);
          w1 = deleteMessage groupId messageKey w0
      in if act = Warn then
           (let (warnCount, d2) = addWarn senderNumber (db w1);
                w2 = w1\<lparr>db := d2\<rparr>;
                maxWarn = 3;
                w3 = (if warnCount \<ge> maxWarn
                      then (let w' = kickParticipant groupId [sender] w2
                            in w'\<lparr>db := resetWarn senderNumber (db w')\<rparr>)
                      else w2);
                (ok, w4) = sendMessage groupId
                             (LinkWarnNotice senderNumber warnCount (warnCount \<ge> maxWarn)) w3
            in if ok then w4\<lparr>db := incrementViolation ''antiLink'' (db w4)\<rparr> else w4)
         else if act = Mute then
           w1\<lparr>db := addMute now senderNumber 10 ''Anti-link violation'' (db w1)\<rparr>
         else kickParticipant groupId [sender] w1)"

section \<open>AntiSpam\<close>

record spam_settings =
  timeWindow :: int
  messageThreshold :: nat
  duplicateThreshold :: nat
  characterFloodThreshold :: nat

definition AntiSpam_settings :: "bot_config \<Rightarrow> spam_settings" where
  "AntiSpam_settings c =
     \<lparr> timeWindow = antiSpamTime c * 1000, messageThreshold = antiSpamThreshold c,
       duplicateThreshold = 3, characterFloodThreshold = 10 \<rparr>"

definition detectRapidFire :: "spam_settings \<Rightarrow> (int \<times> message) list \<Rightarrow> bool" where
  "detectRapidFire st messages = (length messages \<ge> messageThreshold st)"

text \<open>
  \<open>contentCounts\<close> is an object keyed by the normalised body; \<open>bumpCount\<close> is
  \<open>contentCounts[content] = (contentCounts[content] || 0) + 1\<close>.
\<close>

fun bumpCount :: "message \<Rightarrow> (message \<times> nat) list \<Rightarrow> (message \<times> nat) list" where
  "bumpCount k [] = [(k, 1)]"
| "bumpCount k ((k', n) # kvs) =
     (if k = k' then (k', n + 1) # kvs else (k', n) # bumpCount k kvs)"

text \<open>
  \<open>contentCounts\<close> is a plain object, so a key that names a property of
  \<open>Object.prototype\<close> does not start at 0.  For the function-valued properties
  (\<open>constructor\<close>, \<open>__defineGetter__\<close>, \<open>__defineSetter__\<close>, \<open>hasOwnProperty\<close>,
  \<open>__lookupGetter__\<close>, \<open>__lookupSetter__\<close>, \<open>isPrototypeOf\<close>,
  \<open>propertyIsEnumerable\<close>, \<open>toString\<close>, \<open>valueOf\<close>, \<open>toLocaleString\<close>) the stored
  value is the function's text followed by \<open>1\<close>, a string, and \<open>Math.max\<close> over the
  values is \<open>NaN\<close>.  For \<open>__proto__\<close> the assignment of a string is ignored and no
  entry is made.  The keys are given by their code units.
\<close>

definition functionKeys :: "message list" where
  "functionKeys =
     [[0x63, 0x6F, 0x6E, 0x73, 0x74, 0x72, 0x75, 0x63, 0x74, 0x6F, 0x72],
      [0x5F, 0x5F, 0x64, 0x65, 0x66, 0x69, 0x6E, 0x65, 0x47, 0x65, 0x74, 0x74, 0x65, 0x72, 0x5F, 0x5F],
      [0x5F, 0x5F, 0x64, 0x65, 0x66, 0x69, 0x6E, 0x65, 0x53, 0x65, 0x74, 0x74, 0x65, 0x72, 0x5F, 0x5F],
      [0x68, 0x61, 0x73, 0x4F, 0x77, 0x6E, 0x50, 0x72, 0x6F, 0x70, 0x65, 0x72, 0x74, 0x79],
      [0x5F, 0x5F, 0x6C, 0x6F, 0x6F, 0x6B, 0x75, 0x70, 0x47, 0x65, 0x74, 0x74, 0x65, 0x72, 0x5F, 0x5F],
      [0x5F, 0x5F, 0x6C, 0x6F, 0x6F, 0x6B, 0x75, 0x70, 0x53, 0x65, 0x74, 0x74, 0x65, 0x72, 0x5F, 0x5F],
      [0x69, 0x73, 0x50, 0x72, 0x6F, 0x74, 0x6F, 0x74, 0x79, 0x70, 0x65, 0x4F, 0x66],
      [0x70, 0x72, 0x6F, 0x70, 0x65, 0x72, 0x74, 0x79, 0x49, 0x73, 0x45, 0x6E, 0x75, 0x6D, 0x65, 0x72, 0x61, 0x62, 0x6C, 0x65],
      [0x74, 0x6F, 0x53, 0x74, 0x72, 0x69, 0x6E, 0x67],
      [0x76, 0x61, 0x6C, 0x75, 0x65, 0x4F, 0x66],
      [0x74, 0x6F, 0x4C, 0x6F, 0x63, 0x61, 0x6C, 0x65, 0x53, 0x74, 0x72, 0x69, 0x6E, 0x67]]"

definition protoKey :: message where
  "protoKey = [0x5F, 0x5F, 0x70, 0x72, 0x6F, 0x74, 0x6F, 0x5F, 0x5F]"

text \<open>
  \<open>detectDuplicate\<close>.  \<open>norm\<close> stands for the built-in
  \<open>content.toLowerCase().trim()\<close>.  \<open>Math.max()\<close> of no values is \<open>-Infinity\<close>, and a
  comparison with \<open>NaN\<close> or \<open>-Infinity\<close> reports no duplicate.
\<close>

definition detectDuplicate ::
  "(message \<Rightarrow> message) \<Rightarrow> spam_settings \<Rightarrow> (int \<times> message) list \<Rightarrow> bool" where
  "detectDuplicate norm st messages =
     (if length messages < 2 then False
      else let keys = map (\<lambda>m. norm (snd m)) messages
      in if list_ex (\<lambda>k. k \<in> set functionKeys) keys then False
      else let contentCounts = fold bumpCount (filter (\<lambda>k. k \<noteq> protoKey) keys) []
      in if contentCounts = [] then False
         else fold max (map snd contentCounts) 0 \<ge> duplicateThreshold st)"

definition detectCharacterFlood :: "message \<Rightarrow> bool" where
  "detectCharacterFlood msg = (msg \<noteq> [] \<and> repeatedMatches msg \<noteq> [])"

definition getSpamType :: "bool \<Rightarrow> bool \<Rightarrow> bool \<Rightarrow> string" where
  "getSpamType rapidFire duplicate characterFlood =
     (if rapidFire then ''rapid_fire''
      else if duplicate then ''duplicate''
      else if characterFlood then ''character_flood''
      else ''none'')"

text \<open>
  \<open>AntiSpam.detect(sender, messageContent, timestamp)\<close>: the sender's tracked messages
  are pruned to the time window, the current message is appended and the list is
  stored back in \<open>messageTracker\<close>; the verdict is computed from the stored list.
\<close>

definition AntiSpam_detect ::
  "(message \<Rightarrow> message) \<Rightarrow> spam_settings \<Rightarrow> string \<Rightarrow> message \<Rightarrow> int
     \<Rightarrow> (string \<rightharpoonup> (int \<times> message) list)
     \<Rightarrow> detection \<times> (string \<rightharpoonup> (int \<times> message) list)" where
  "AntiSpam_detect norm st sender messageContent timestamp tracker =
     (let senderNumber = numberOf sender;
          userMessages = (case tracker senderNumber of None \<Rightarrow> [] | Some ms \<Rightarrow> ms);
          recentMessages =
            filter (\<lambda>m. timestamp - fst m < timeWindow st) userMessages
              @ [(timestamp, messageContent)];
          rapidFire = detectRapidFire st recentMessages;
          duplicate = detectDuplicate norm st recentMessages;
          characterFlood = detectCharacterFlood messageContent
      in (\<lparr> detected = (rapidFire \<or> duplicate \<or> characterFlood),
            dtype = getSpamType rapidFire duplicate characterFlood,
            dseverity = None,
            dcount = length recentMessages \<rparr>,
          tracker(senderNumber \<mapsto> recentMessages)))"

text \<open>The sender's tracked messages that are still inside the time window.\<close>

definition recentOf ::
  "spam_settings \<Rightarrow> int \<Rightarrow> string \<Rightarrow> (string \<rightharpoonup> (int \<times> message) list)
     \<Rightarrow> (int \<times> message) list" where
  "recentOf st timestamp sender tracker =
     filter (\<lambda>m. timestamp - fst m < timeWindow st)
       (case tracker (numberOf sender) of None \<Rightarrow> [] | Some ms \<Rightarrow> ms)"

definition AntiSpam_muteDuration :: "defense_mode \<Rightarrow> int" where
  "AntiSpam_muteDuration m = (case m of NORMAL \<Rightarrow> 10 | STRICT \<Rightarrow> 30 | LOCKDOWN \<Rightarrow> 60)"

text \<open>
  \<open>AntiSpam.handle\<close>: always a mute, whose length depends on the mode; the message is
  not deleted; after the notice the sender's tracker is dropped.
\<close>

definition AntiSpam_handle :: "int \<Rightarrow> string \<Rightarrow> string \<Rightarrow> detection \<Rightarrow> world \<Rightarrow> world" where
  "AntiSpam_handle now groupId sender spamInfo w0 =
     (let senderNumber = numberOf sender;
          muteDuration = AntiSpam_muteDuration (groupDefenseMode (db w0) groupId);
          w1 = w0\<lparr>db := addMute now senderNumber muteDuration (''Anti-spam: '' @ dtype spamInfo) (db w0)\<rparr>;
          (ok, w2) = sendMessage groupId (SpamMuteNotice senderNumber muteDuration) w1
      in if ok
         then w2\<lparr>messageTracker := (messageTracker w2)(senderNumber := None),
                 db := incrementViolation ''antiSpam'' (db w2)\<rparr>
         else w2)"

section \<open>GeoRestriction\<close>

record geo_state =
  allowedCountries :: "string list"
  geoWhitelist :: "string list"

definition geoDefault :: geo_state where
  "geoDefault = \<lparr> allowedCountries = [''62''], geoWhitelist = [] \<rparr>"

definition isDigit :: "char \<Rightarrow> bool" where
  "isDigit c = (c \<in> set ''0123456789'')"

text \<open>\<open>GeoRestriction.detect(phoneNumber).allowed\<close>.\<close>

definition GeoRestriction_allowed :: "geo_state \<Rightarrow> string \<Rightarrow> bool" where
  "GeoRestriction_allowed g phoneNumber =
     (let cleanNumber = filter isDigit phoneNumber
      in cleanNumber \<in> set (geoWhitelist g)
         \<or> list_ex (\<lambda>code. take (length code) cleanNumber = code) (allowedCountries g))"

definition GeoRestriction_handle :: "string \<Rightarrow> string \<Rightarrow> world \<Rightarrow> world" where
  "GeoRestriction_handle groupId participant w0 =
     (let phoneNumber = numberOf participant;
          w1 = kickParticipant groupId [participant] w0;
          (ok, w2) = sendMessage groupId (GeoKickNotice phoneNumber) w1
      in if ok then w2\<lparr>db := incrementViolation ''geoRestriction'' (db w2)\<rparr> else w2)"

section \<open>DefenseEngine\<close>

record engine_module =
  moduleName :: string
  priority :: int
  checkOnNewMember :: bool

definition DefenseEngine_registered :: "engine_module list" where
  "DefenseEngine_registered =
     [\<lparr> moduleName = ''antiVirtex'', priority = 1, checkOnNewMember = False \<rparr>,
      \<lparr> moduleName = ''antiToxic'', priority = 2, checkOnNewMember = False \<rparr>,
      \<lparr> moduleName = ''antiLink'', priority = 3, checkOnNewMember = False \<rparr>,
      \<lparr> moduleName = ''antiSpam'', priority = 4, checkOnNewMember = False \<rparr>,
      \<lparr> moduleName = ''geoRestriction'', priority = 5, checkOnNewMember = True \<rparr>]"

text \<open>\<open>this.modules.sort((a, b) => a.priority - b.priority)\<close>; the sort is stable.\<close>

definition DefenseEngine_modules :: "engine_module list" where
  "DefenseEngine_modules = sort_key priority DefenseEngine_registered"

text \<open>\<open>module.instance.isEnabled(groupId)\<close>: each instance tests its own settings key.\<close>

definition module_isEnabled :: "database \<Rightarrow> string \<Rightarrow> string \<Rightarrow> bool" where
  "module_isEnabled d name groupId =
     (let s = getGroupSettings d groupId
      in if name = ''antiVirtex'' then gs_antiVirtex s \<noteq> Some False
         else if name = ''antiToxic'' then gs_antiToxic s \<noteq> Some False
         else if name = ''antiLink'' then gs_antiLink s \<noteq> Some False
         else if name = ''antiSpam'' then gs_antiSpam s \<noteq> Some False
         else if name = ''geoRestriction'' then gs_geoRestriction s \<noteq> Some False
         else False)"

record message_info =
  mi_from :: string
  mi_sender :: string
  mi_content :: message
  mi_isGroup :: bool
  mi_groupId :: string
  mi_quoted :: bool

text \<open>
  The profanity and link detectors are built from word lists and URL patterns; the
  engine only passes the message to them and reads \<open>detected\<close>.  They are parameters
  here, with the built-in string normalisation the spam module uses.
\<close>

record externals =
  toxicDetect :: "message \<Rightarrow> detection"
  linkDetect :: "message \<Rightarrow> detection"
  lowerTrim :: "message \<Rightarrow> message"

definition runModuleDetection ::
  "externals \<Rightarrow> int \<Rightarrow> string \<Rightarrow> message \<Rightarrow> string \<Rightarrow> world \<Rightarrow> detection \<times> world" where
  "runModuleDetection ext now name messageContent sender w =
     (if name = ''antiVirtex'' then
        (let (d, lis) = AntiVirtex_detect (AntiVirtex_settings (cfg w)) (virtexLastIndex w)
                          messageContent
         in (d, w\<lparr>virtexLastIndex := lis\<rparr>))
      else if name = ''antiToxic'' then (toxicDetect ext messageContent, w)
      else if name = ''antiLink'' then (linkDetect ext messageContent, w)
      else if name = ''antiSpam'' then
        (let (d, tr) = AntiSpam_detect (lowerTrim ext) (AntiSpam_settings (cfg w)) sender
                         messageContent now (messageTracker w)
         in (d, w\<lparr>messageTracker := tr\<rparr>))
      else (notDetected, w))"

definition handleViolation ::
  "int \<Rightarrow> string \<Rightarrow> string \<Rightarrow> string \<Rightarrow> nat \<Rightarrow> detection \<Rightarrow> world \<Rightarrow> world" where
  "handleViolation now name groupId sender messageKey det w =
     (if name = ''antiVirtex'' then AntiVirtex_handle groupId sender messageKey det w
      else if name = ''antiToxic'' then AntiToxic_handle now groupId sender messageKey det w
      else if name = ''antiLink'' then AntiLink_handle now groupId sender messageKey w
      else if name = ''antiSpam'' then AntiSpam_handle now groupId sender det w
      else w)"

record check_result =
  blocked :: bool
  blockedBy :: "string option"
  verdict :: "detection option"

definition notBlocked :: check_result where
  "notBlocked = \<lparr> blocked = False, blockedBy = None, verdict = None \<rparr>"

text \<open>
  The loop of \<open>checkMessage\<close> over the modules.  Each call of \<open>runModuleDetection\<close> and
  of \<open>handleViolation\<close> is entered in the log of calls under the module's name.
\<close>

fun checkModules ::
  "externals \<Rightarrow> int \<Rightarrow> nat \<Rightarrow> message_info \<Rightarrow> engine_module list \<Rightarrow> world
     \<Rightarrow> check_result \<times> world" where
  "checkModules ext now messageKey info [] w = (notBlocked, w)"
| "checkModules ext now messageKey info (m # ms) w =
     (if \<not> module_isEnabled (db w) (moduleName m) (mi_groupId info)
      then checkModules ext now messageKey info ms w
      else
        (let w1 = w\<lparr>calls := calls w @ [DetectCall (moduleName m)]\<rparr>;
             (det, w2) = runModuleDetection ext now (moduleName m) (mi_content info)
                           (mi_sender info) w1
         in if detected det then
              (let w3 = w2\<lparr>stats := (stats w2)\<lparr>violationsSeen := violationsSeen (stats w2) + 1\<rparr>,
                          calls := calls w2 @ [HandleCall (moduleName m)]\<rparr>;
                   w4 = handleViolation now (moduleName m) (mi_groupId info) (mi_sender info)
                          messageKey det w3;
                   w5 = w4\<lparr>stats := (stats w4)\<lparr>blockedCount := blockedCount (stats w4) + 1\<rparr>\<rparr>
               in (\<lparr> blocked = True, blockedBy = Some (moduleName m), verdict = Some det \<rparr>, w5))
            else checkModules ext now messageKey info ms w2))"

definition checkMessage ::
  "externals \<Rightarrow> int \<Rightarrow> string \<Rightarrow> nat \<Rightarrow> message_info \<Rightarrow> world \<Rightarrow> check_result \<times> world" where
  "checkMessage ext now botId messageKey info w =
     (if mi_isGroup info \<and> \<not> isProtected (db w) (mi_groupId info) then (notBlocked, w)
      else if isAuthorOrOwner (db w) (numberOf (mi_sender info)) then (notBlocked, w)
      else if mi_sender info = botId then (notBlocked, w)
      else checkModules ext now messageKey info DefenseEngine_modules
             (w\<lparr>stats := (stats w)\<lparr>totalChecks := totalChecks (stats w) + 1\<rparr>\<rparr>))"

text \<open>
  \<open>checkNewMember\<close>: blacklist kick, then the geographic check.  When the notice after
  the blacklist kick cannot be sent, the \<open>catch\<close> returns \<open>blocked: false\<close>.
\<close>

definition checkNewMember :: "geo_state \<Rightarrow> string \<Rightarrow> string \<Rightarrow> world \<Rightarrow> bool \<times> world" where
  "checkNewMember geo groupId participant w =
     (if \<not> isProtected (db w) groupId then (False, w)
      else let phoneNumber = numberOf participant
      in if isAuthorOrOwner (db w) phoneNumber then (False, w)
      else if isBlacklisted (db w) phoneNumber then
        (let w1 = kickParticipant groupId [participant] w;
             (ok, w2) = sendMessage groupId (BlacklistKickNotice phoneNumber) w1
         in (ok, w2))
      else if \<not> GeoRestriction_allowed geo phoneNumber
              \<and> module_isEnabled (db w) ''geoRestriction'' groupId then
        (True, GeoRestriction_handle groupId participant w)
      else (False, w))"

section \<open>GroupHandler\<close>

text \<open>
  The loop of \<open>handleMemberJoin\<close> over the joining participants: a blocked participant
  gets no welcome; a welcome that cannot be sent ends the loop (the \<open>catch\<close> is outside
  it).
\<close>

fun welcomeParticipants :: "geo_state \<Rightarrow> string \<Rightarrow> string list \<Rightarrow> world \<Rightarrow> world" where
  "welcomeParticipants geo groupId [] w = w"
| "welcomeParticipants geo groupId (participant # rest) w =
     (let (isBlocked, w1) = checkNewMember geo groupId participant w
      in if isBlocked then welcomeParticipants geo groupId rest w1
         else (let (ok, w2) = sendMessage groupId (WelcomeNotice participant) w1
               in if ok then welcomeParticipants geo groupId rest w2 else w2))"

text \<open>
  \<open>handleMemberJoin(groupId, participants, groupSettings)\<close>; \<open>metadataOk\<close> says whether
  \<open>getGroupMetadata\<close> returned an object.
\<close>

definition handleMemberJoin ::
  "geo_state \<Rightarrow> bool \<Rightarrow> string \<Rightarrow> string list \<Rightarrow> group_settings \<Rightarrow> world \<Rightarrow> world" where
  "handleMemberJoin geo metadataOk groupId participants gs w =
     (if gs_welcome gs \<noteq> Some True then w
      else if \<not> metadataOk then w
      else welcomeParticipants geo groupId participants w)"

datatype participants_action = Add | Remove | Leave | Promote | Demote

text \<open>
  \<open>handleParticipantsUpdate\<close>, the entry point for membership events; only the
  \<open>'add'\<close> branch is followed here, the other branches send a goodbye or only log.
\<close>

definition handleParticipantsUpdate_add ::
  "geo_state \<Rightarrow> bool \<Rightarrow> string \<Rightarrow> string list \<Rightarrow> world \<Rightarrow> world" where
  "handleParticipantsUpdate_add geo metadataOk groupId participants w =
     (if \<not> isWhitelisted (db w) groupId \<and> \<not> isProtected (db w) groupId then w
      else handleMemberJoin geo metadataOk groupId participants
             (getGroupSettings (db w) groupId) w)"

text \<open>
  The entries of the log of calls that record the engine consulting a module
  (\<open>DetectCall\<close>) or acting on its verdict (\<open>HandleCall\<close>), and the names of the
  modules of a list that are enabled for a group.
\<close>

definition engineCalls :: "call list \<Rightarrow> call list" where
  "engineCalls cs =
     filter (\<lambda>c. case c of DetectCall _ \<Rightarrow> True | HandleCall _ \<Rightarrow> True | _ \<Rightarrow> False) cs"

definition enabledNames :: "database \<Rightarrow> string \<Rightarrow> engine_module list \<Rightarrow> string list" where
  "enabledNames d groupId ms =
     filter (\<lambda>name. module_isEnabled d name groupId) (map moduleName ms)"

text \<open>
  The verdict a module returns for a message in a state of the bot, and whether the
  module triggers there: it is enabled for the group and its verdict has
  \<open>detected = true\<close>.
\<close>

definition verdictOf :: "externals \<Rightarrow> int \<Rightarrow> message_info \<Rightarrow> string \<Rightarrow> world \<Rightarrow> detection" where
  "verdictOf ext now info name w =
     fst (runModuleDetection ext now name (mi_content info) (mi_sender info) w)"

definition triggers :: "externals \<Rightarrow> int \<Rightarrow> message_info \<Rightarrow> world \<Rightarrow> string \<Rightarrow> bool" where
  "triggers ext now info w name =
     (module_isEnabled (db w) name (mi_groupId info) \<and> detected (verdictOf ext now info name w))"

text \<open>
  The state after the engine has consulted a module: the call is logged and the
  detection has left its trace (the pattern positions of the virtex module, the
  message tracker of the spam module).  \<open>consulted\<close> is the state after a list of
  modules was consulted in turn.
\<close>

definition consult :: "externals \<Rightarrow> int \<Rightarrow> message_info \<Rightarrow> string \<Rightarrow> world \<Rightarrow> world" where
  "consult ext now info name w =
     snd (runModuleDetection ext now name (mi_content info) (mi_sender info)
            (w\<lparr>calls := calls w @ [DetectCall name]\<rparr>))"

definition consulted ::
  "externals \<Rightarrow> int \<Rightarrow> message_info \<Rightarrow> string list \<Rightarrow> world \<Rightarrow> world" where
  "consulted ext now info names w = fold (consult ext now info) names w"


section \<open>AuthMiddleware\<close>

datatype role = User | Owner | Author

definition roleHierarchy :: "role \<Rightarrow> nat" where
  "roleHierarchy r = (case r of Author \<Rightarrow> 3 | Owner \<Rightarrow> 2 | User \<Rightarrow> 1)"

record auth_result =
  authorized :: bool
  reason :: string
  authMessage :: notice
  userRole :: "role option"

definition checkRole :: "database \<Rightarrow> string \<Rightarrow> role \<Rightarrow> auth_result" where
  "checkRole d number requiredRole =
     (let uRole = (if isAuthor d number then Author
                   else if isOwner d number then Owner
                   else User)
      in if roleHierarchy uRole < roleHierarchy requiredRole
         then \<lparr> authorized = False, reason = ''insufficient_role'',
                authMessage = (if requiredRole = Author then AuthorOnlyNotice
                               else if requiredRole = Owner then OwnerOnlyNotice
                               else EmptyNotice),
                userRole = Some uRole \<rparr>
         else \<lparr> authorized = True, reason = [], authMessage = EmptyNotice,
                userRole = Some uRole \<rparr>)"

definition checkAuth :: "database \<Rightarrow> string \<Rightarrow> string \<Rightarrow> role \<Rightarrow> auth_result" where
  "checkAuth d sender command requiredRole =
     (let senderNumber = numberOf sender
      in if isDisabled d senderNumber
         then \<lparr> authorized = False, reason = ''disabled'', authMessage = DisabledNotice,
                userRole = None \<rparr>
         else if isBlacklisted d senderNumber
         then \<lparr> authorized = False, reason = ''blacklisted'', authMessage = BlacklistedNotice,
                userRole = None \<rparr>
         else if getBotMode d = SELF \<and> \<not> isAuthor d senderNumber
         then \<lparr> authorized = False, reason = ''self_mode'', authMessage = SelfModeNotice,
                userRole = None \<rparr>
         else checkRole d senderNumber requiredRole)"

section \<open>CooldownMiddleware\<close>

record cooldown_result =
  onCooldown :: bool
  remaining :: int
  cooldownMessage :: notice

definition notOnCooldown :: cooldown_result where
  "notOnCooldown = \<lparr> onCooldown = False, remaining = 0, cooldownMessage = EmptyNotice \<rparr>"

text \<open>\<open>Math.ceil(cooldownRemaining / 1000)\<close> on a positive integer.\<close>

definition ceilSeconds :: "int \<Rightarrow> int" where
  "ceilSeconds ms = (ms + 999) div 1000"

definition checkCooldown :: "int \<Rightarrow> string \<Rightarrow> string \<Rightarrow> world \<Rightarrow> cooldown_result \<times> world" where
  "checkCooldown now sender command w =
     (let senderNumber = numberOf sender
      in if isAuthorOrOwner (db w) senderNumber then (notOnCooldown, w)
         else (let (cooldownRemaining, d') = isOnCooldown now senderNumber command (db w)
               in case cooldownRemaining of
                    Some r \<Rightarrow> (\<lparr> onCooldown = True, remaining = r,
                                  cooldownMessage = CooldownNotice command (ceilSeconds r) \<rparr>,
                                w\<lparr>db := d'\<rparr>)
                  | None \<Rightarrow> (notOnCooldown, w\<lparr>db := d'\<rparr>)))"

definition customCooldowns :: "(string \<times> int) list" where
  "customCooldowns =
     [(''ai'', 30), (''download-music'', 60), (''download-tiktok'', 60), (''share'', 600),
      (''broadcast'', 600), (''game'', 5), (''joingame'', 3), (''quotes'', 10),
      (''sticker'', 5), (''brat'', 5)]"

definition getCooldownDuration :: "bot_config \<Rightarrow> string \<Rightarrow> int" where
  "getCooldownDuration c command =
     (case map_of customCooldowns command of None \<Rightarrow> cooldownCommand c | Some n \<Rightarrow> n)"

text \<open>
  \<open>applyCooldown\<close>; \<open>db.setCooldown\<close> replaces a falsy duration by the configured
  default once more.
\<close>

definition applyCooldown :: "int \<Rightarrow> string \<Rightarrow> string \<Rightarrow> world \<Rightarrow> world" where
  "applyCooldown now sender command w =
     (let senderNumber = numberOf sender
      in if isAuthorOrOwner (db w) senderNumber then w
         else (let cooldownTime = getCooldownDuration (cfg w) command;
                   t = (if cooldownTime = 0 then cooldownCommand (cfg w) else cooldownTime)
               in w\<lparr>db := setCooldown now senderNumber command t (db w)\<rparr>))"

text \<open>
  \<open>checkGlobalRateLimit\<close>: window of 60000 ms, at most 10 requests.  The stored list is
  pruned with \<open>now - time < timeWindow\<close>; a request that is not limited is appended.
  The function returns \<open>limited\<close>.
\<close>

definition checkGlobalRateLimit :: "int \<Rightarrow> string \<Rightarrow> world \<Rightarrow> bool \<times> world" where
  "checkGlobalRateLimit now sender w =
     (let senderNumber = numberOf sender
      in if isAuthorOrOwner (db w) senderNumber then (False, w)
         else (let timeWindow = 60000;
                   maxRequests = 10;
                   requests = (case globalCooldowns w senderNumber of None \<Rightarrow> [] | Some r \<Rightarrow> r);
                   recentRequests = filter (\<lambda>time. now - time < timeWindow) requests
               in if length recentRequests \<ge> maxRequests
                  then (True, w\<lparr>globalCooldowns := (globalCooldowns w)(senderNumber \<mapsto> recentRequests)\<rparr>)
                  else (False, w\<lparr>globalCooldowns :=
                                   (globalCooldowns w)(senderNumber \<mapsto> recentRequests @ [now])\<rparr>)))"

text \<open>
  The number the window reports for a user at time \<open>now\<close>: the length of the pruned
  list that \<open>checkGlobalRateLimit\<close> compares with the budget.
\<close>

definition windowCount :: "int \<Rightarrow> string \<Rightarrow> world \<Rightarrow> nat" where
  "windowCount now sender w =
     length (filter (\<lambda>time. now - time < 60000)
               (case globalCooldowns w (numberOf sender) of None \<Rightarrow> [] | Some r \<Rightarrow> r))"

text \<open>The list stored for a user in \<open>globalCooldowns\<close>, empty when there is none.\<close>

definition stored :: "string \<Rightarrow> world \<Rightarrow> int list" where
  "stored sender w = (case globalCooldowns w (numberOf sender) of None \<Rightarrow> [] | Some r \<Rightarrow> r)"

text \<open>
  The count as the specification words it: the entries with a timestamp inside the
  closed interval from \<open>T - window\<close> to \<open>T\<close>.
\<close>

definition spec_windowCount :: "int \<Rightarrow> int list \<Rightarrow> nat" where
  "spec_windowCount T inserted =
     length (filter (\<lambda>time. T - 60000 \<le> time \<and> time \<le> T) inserted)"

text \<open>
  A user's requests at the times \<open>ts\<close>, one \<open>checkGlobalRateLimit\<close> each, in order;
  \<open>insertedBy\<close> collects the timestamps that the checks inserted.
\<close>

fun requestsAt :: "string \<Rightarrow> int list \<Rightarrow> world \<Rightarrow> world" where
  "requestsAt sender [] w = w"
| "requestsAt sender (t # ts) w = requestsAt sender ts (snd (checkGlobalRateLimit t sender w))"

fun insertedBy :: "string \<Rightarrow> int list \<Rightarrow> world \<Rightarrow> int list" where
  "insertedBy sender [] w = []"
| "insertedBy sender (t # ts) w =
     (let (limited, w') = checkGlobalRateLimit t sender w
      in (if limited then [] else [t]) @ insertedBy sender ts w')"

section \<open>ValidationMiddleware\<close>

datatype custom_validation = CustomValid | CustomInvalid "string list" | CustomThrows

text \<open>
  A requirements object.  \<open>minArgs\<close> and \<open>maxArgs\<close> are tested for truthiness first, so
  0 and absent are the same; \<open>validate\<close> is the optional command-specific predicate,
  which may throw (for instance \<open>args[0].toUpperCase()\<close> on no arguments).
\<close>

record requirements =
  minArgs :: nat
  maxArgs :: nat
  groupOnly :: bool
  requiresQuoted :: bool
  customValidate :: "(string list \<Rightarrow> message_info \<Rightarrow> custom_validation) option"

record validation_result =
  valid :: bool
  validationMessage :: notice

text \<open>
  \<open>validateCommand\<close>; the table of \<open>getCommandRequirements\<close> is a parameter.  The
  \<open>catch\<close> branch returns no \<open>message\<close> field, so the dispatcher sends
  \<open>text: undefined\<close>.
\<close>

definition validateCommand ::
  "(string \<Rightarrow> requirements option) \<Rightarrow> string \<Rightarrow> string list \<Rightarrow> message_info
     \<Rightarrow> validation_result" where
  "validateCommand getCommandRequirements command args info =
     (case getCommandRequirements command of
        None \<Rightarrow> \<lparr> valid = True, validationMessage = EmptyNotice \<rparr>
      | Some req \<Rightarrow>
          (let e1 = (if minArgs req \<noteq> 0 \<and> length args < minArgs req then [''minArgs''] else []);
               e2 = (if maxArgs req \<noteq> 0 \<and> length args > maxArgs req then [''maxArgs''] else []);
               e3 = (if groupOnly req \<and> \<not> mi_isGroup info then [''groupOnly''] else []);
               e4 = (if requiresQuoted req \<and> \<not> mi_quoted info then [''requiresQuoted''] else []);
               custom = (case customValidate req of
                           None \<Rightarrow> CustomValid
                         | Some f \<Rightarrow> f args info)
           in case custom of
                CustomThrows \<Rightarrow> \<lparr> valid = False, validationMessage = UndefinedNotice \<rparr>
              | CustomValid \<Rightarrow>
                  (if e1 @ e2 @ e3 @ e4 \<noteq> []
                   then \<lparr> valid = False, validationMessage = ValidationNotice command \<rparr>
                   else \<lparr> valid = True, validationMessage = EmptyNotice \<rparr>)
              | CustomInvalid es \<Rightarrow>
                  (if e1 @ e2 @ e3 @ e4 @ es \<noteq> []
                   then \<lparr> valid = False, validationMessage = ValidationNotice command \<rparr>
                   else \<lparr> valid = True, validationMessage = EmptyNotice \<rparr>)))"

text \<open>
  The entry of \<open>getCommandRequirements\<close> for \<open>defense\<close>: exactly one argument, which
  must name a mode.  The validator reads \<open>args[0].toUpperCase()\<close>; without arguments
  \<open>args[0]\<close> is \<open>undefined\<close> and the call throws.  \<open>toUpperCase\<close> is built-in and a
  parameter here.
\<close>

definition defenseValidate :: "(string \<Rightarrow> string) \<Rightarrow> string list \<Rightarrow> message_info \<Rightarrow> custom_validation" where
  "defenseValidate toUpperCase args info =
     (case args of
        [] \<Rightarrow> CustomThrows
      | a # _ \<Rightarrow>
          (if toUpperCase a \<in> set [''NORMAL'', ''STRICT'', ''LOCKDOWN'']
           then CustomValid
           else CustomInvalid [''Mode defense harus: NORMAL, STRICT, LOCKDOWN'']))"

definition defenseRequirements :: "(string \<Rightarrow> string) \<Rightarrow> string \<Rightarrow> requirements option" where
  "defenseRequirements toUpperCase command =
     (if command = ''defense''
      then Some \<lparr> minArgs = 1, maxArgs = 1, groupOnly = False, requiresQuoted = False,
                  customValidate = Some (defenseValidate toUpperCase) \<rparr>
      else None)"

section \<open>CommandManager\<close>

text \<open>
  A registered command: its required role and its handler.  The handler works on the
  process state and either returns (\<open>True\<close>) or throws (\<open>False\<close>).
\<close>

record command =
  cmdRole :: role
  cmdExecute :: "string list \<Rightarrow> message_info \<Rightarrow> world \<Rightarrow> bool \<times> world"

record registry =
  commands :: "string \<rightharpoonup> command"
  aliases :: "string \<rightharpoonup> string"

definition resolveAlias :: "registry \<Rightarrow> string \<Rightarrow> string" where
  "resolveAlias reg commandName =
     (case aliases reg commandName of
        None \<Rightarrow> commandName
      | Some a \<Rightarrow> if a = [] then commandName else a)"

text \<open>
  The \<open>catch\<close> block of \<open>execute\<close>: an error text is sent (a failure to send it is
  swallowed), the error is logged in the database, the result is \<open>false\<close>.
\<close>

definition executeCatch :: "int \<Rightarrow> string \<Rightarrow> world \<Rightarrow> bool \<times> world" where
  "executeCatch now jid w =
     (let (ok, w1) = sendMessage jid CommandErrorNotice w
      in (False, w1\<lparr>db := logError now (db w1)\<rparr>))"

text \<open>A rejection: send the reason; a throwing \<open>sendMessage\<close> lands in the \<open>catch\<close>.\<close>

definition reject :: "int \<Rightarrow> string \<Rightarrow> notice \<Rightarrow> world \<Rightarrow> bool \<times> world" where
  "reject now jid text w =
     (let (ok, w1) = sendMessage jid text w
      in if ok then (False, w1) else executeCatch now jid w1)"

definition logCall :: "call \<Rightarrow> world \<Rightarrow> world" where
  "logCall c w = w\<lparr>calls := calls w @ [c]\<rparr>"

text \<open>
  \<open>CommandManager.execute\<close>.  Each middleware call, the handler call, the usage
  increment and the cooldown commit are entered in the log of calls when they start.
\<close>

definition execute ::
  "registry \<Rightarrow> (string \<Rightarrow> requirements option) \<Rightarrow> int \<Rightarrow> string \<Rightarrow> string list
     \<Rightarrow> message_info \<Rightarrow> world \<Rightarrow> bool \<times> world" where
  "execute reg getCommandRequirements now commandName args info w =
     (let actualCommand = resolveAlias reg commandName
      in case commands reg actualCommand of
           None \<Rightarrow> (False, w)
         | Some cmd \<Rightarrow>
             (let jid = mi_from info;
                  sender = mi_sender info;
                  w1 = logCall AuthCheck w;
                  authResult = checkAuth (db w1) sender actualCommand (cmdRole cmd)
              in if \<not> authorized authResult then reject now jid (authMessage authResult) w1
              else let (cooldownResult, w2) = checkCooldown now sender actualCommand
                                                (logCall CooldownCheck w1)
              in if onCooldown cooldownResult
                 then reject now jid (cooldownMessage cooldownResult) w2
              else let w3 = logCall ValidationCheck w2;
                       validationResult =
                         validateCommand getCommandRequirements actualCommand args info
              in if \<not> valid validationResult
                 then reject now jid (validationMessage validationResult) w3
              else let (limited, w4) = checkGlobalRateLimit now sender
                                         (logCall RateLimitCheck w3)
              in if limited then reject now jid RateLimitNotice w4
              else let (returned, w5) = cmdExecute cmd args info
                                          (logCall (HandlerCall actualCommand) w4)
              in if \<not> returned then executeCatch now jid w5
              else let w6 = logCall (UsageIncrement actualCommand) w5;
                       w7 = w6\<lparr>db := incrementCommandUsage actualCommand (db w6)\<rparr>;
                       w8 = applyCooldown now sender actualCommand
                              (logCall (CooldownCommit actualCommand) w7)
              in (True, w8)))"

text \<open>
  The state in which \<open>execute\<close> calls the handler of \<open>command\<close>, after the four checks
  have passed.
\<close>

definition handlerInput :: "int \<Rightarrow> string \<Rightarrow> string \<Rightarrow> world \<Rightarrow> world" where
  "handlerInput now sender command w =
     logCall (HandlerCall command)
       (snd (checkGlobalRateLimit now sender
          (logCall RateLimitCheck
             (logCall ValidationCheck
                (snd (checkCooldown now sender command
                   (logCall CooldownCheck (logCall AuthCheck w))))))))"

text \<open>
  What a rejection appends to the log of calls: the reason, and the generic error text
  as well when the transport refused the reason.
\<close>

definition rejectionCalls :: "string \<Rightarrow> notice \<Rightarrow> world \<Rightarrow> call list" where
  "rejectionCalls jid text w =
     SendMessage jid text # (if sendOk w then [] else [SendMessage jid CommandErrorNotice])"

section \<open>A concrete database and process state\<close>

text \<open>
  One author, one owner, one blacklisted number, one protected group with default
  settings; used to evaluate the definitions on concrete inputs.
\<close>

definition exampleDb :: database where
  "exampleDb = \<lparr> authors = [''6281000''], owners = [''6282000''], blacklisted = [''6666''],
      disabled = [], muted = Map.empty, warned = Map.empty, cooldowns = Map.empty,
      protected = [''g1''], whitelisted = [], groupSettings = Map.empty,
      botMode = None, globalDefenseMode = None, commandUsage = Map.empty,
      violations = Map.empty, errorLog = [] \<rparr>"

definition exampleWorld :: world where
  "exampleWorld = \<lparr> db = exampleDb, cfg = defaultConfig, globalCooldowns = Map.empty,
      messageTracker = Map.empty, virtexLastIndex = [0, 0, 0, 0],
      stats = \<lparr> totalChecks = 0, violationsSeen = 0, blockedCount = 0 \<rparr>,
      calls = [], sendOk = True \<rparr>"




text \<open>
  Detectors that find nothing, for the profanity and link parameters; a message of
  sixty times the letter a sent to the example group by a plain member.
\<close>

definition quietExternals :: externals where
  "quietExternals = \<lparr> toxicDetect = (\<lambda>m. notDetected), linkDetect = (\<lambda>m. notDetected),
                       lowerTrim = id \<rparr>"

definition floodInfo :: message_info where
  "floodInfo = \<lparr> mi_from = ''g1'', mi_sender = ''6283000@s.whatsapp.net'',
                  mi_content = replicate 60 0x61, mi_isGroup = True,
                  mi_groupId = ''g1'', mi_quoted = False \<rparr>"

text \<open>
  A small registry: an Owner command, two User commands whose handler answers with a
  text, and a User command whose handler throws; the requirements of \<open>ai\<close> as in
  \<open>getCommandRequirements\<close> (at least one argument, a non-empty question).
\<close>

definition replyHandler :: "string list \<Rightarrow> message_info \<Rightarrow> world \<Rightarrow> bool \<times> world" where
  "replyHandler args info w = sendMessage (mi_from info) EmptyNotice w"

definition throwingHandler :: "string list \<Rightarrow> message_info \<Rightarrow> world \<Rightarrow> bool \<times> world" where
  "throwingHandler args info w = (False, w)"

definition exampleRegistry :: registry where
  "exampleRegistry =
     \<lparr> commands = [''kick'' \<mapsto> \<lparr> cmdRole = Owner, cmdExecute = replyHandler \<rparr>,
                    ''ai'' \<mapsto> \<lparr> cmdRole = User, cmdExecute = replyHandler \<rparr>,
                    ''menu'' \<mapsto> \<lparr> cmdRole = User, cmdExecute = replyHandler \<rparr>,
                    ''boom'' \<mapsto> \<lparr> cmdRole = User, cmdExecute = throwingHandler \<rparr>],
       aliases = [''k'' \<mapsto> ''kick''] \<rparr>"

definition exampleRequirements :: "string \<Rightarrow> requirements option" where
  "exampleRequirements command =
     (if command = ''ai''
      then Some \<lparr> minArgs = 1, maxArgs = 0, groupOnly = False, requiresQuoted = False,
                  customValidate = Some (\<lambda>args info.
                    if concat args = [] then CustomInvalid [''empty question'']
                    else CustomValid) \<rparr>
      else None)"

definition memberInfo :: message_info where
  "memberInfo = \<lparr> mi_from = ''g1'', mi_sender = ''6283000@s.whatsapp.net'',
                   mi_content = [], mi_isGroup = True, mi_groupId = ''g1'',
                   mi_quoted = False \<rparr>"

text \<open>The example state with an active cooldown, and with a full rate window.\<close>

definition coolingWorld :: world where
  "coolingWorld =
     exampleWorld\<lparr>db := exampleDb\<lparr>cooldowns := [''6283000'' \<mapsto> [''ai'' \<mapsto> 5000]]\<rparr>\<rparr>"

definition busyWorld :: world where
  "busyWorld =
     exampleWorld\<lparr>globalCooldowns := [''6283000'' \<mapsto> [900, 901, 902, 903, 904, 905, 906, 907, 908, 909]]\<rparr>"


text \<open>A message of ten times the letter a from the same member.\<close>

definition tenInfo :: message_info where
  "tenInfo = \<lparr> mi_from = ''g1'', mi_sender = ''6283000@s.whatsapp.net'',
                mi_content = replicate 10 0x61, mi_isGroup = True,
                mi_groupId = ''g1'', mi_quoted = False \<rparr>"


text \<open>
  The command \<open>defense\<close> as the command manager registers it (module of the author
  commands, role Author), and a private message of the author.
\<close>

definition authorRegistry :: registry where
  "authorRegistry =
     \<lparr> commands = [''defense'' \<mapsto> \<lparr> cmdRole = Author, cmdExecute = replyHandler \<rparr>],
       aliases = Map.empty \<rparr>"

definition authorInfo :: message_info where
  "authorInfo = \<lparr> mi_from = ''6281000@s.whatsapp.net'', mi_sender = ''6281000@s.whatsapp.net'',
                   mi_content = [], mi_isGroup = False, mi_groupId = [],
                   mi_quoted = False \<rparr>"
section \<open>Unfolding rules for evaluation\<close>

lemmas db_simps = isAuthorOrOwner_def isAuthor_def isOwner_def isBlacklisted_def isProtected_def
  isWhitelisted_def isDisabled_def getBotMode_def getGroupSettings_def getDefaultGroupSettings_def
  groupDefenseMode_def getDefenseMode_def numberOf_def

lemmas transport_simps = sendMessage_def kickParticipant_def deleteMessage_def

lemmas matrix_simps = AntiVirtex_determineAction_def AntiToxic_determineAction_def
  lookupAction_def AntiVirtex_actionMatrix_def AntiToxic_actionMatrix_def

lemmas virtex_simps = AntiVirtex_detect_def AntiVirtex_checkLength_def
  AntiVirtex_checkRepeatedCharacters_def AntiVirtex_checkEmojiFlood_def
  AntiVirtex_checkInvisibleCharacters_def AntiVirtex_checkVirtexPatterns_def
  AntiVirtex_settings_def defaultConfig_def virtexPatterns_def regexTest_def regexChars_def
  midSurrogatePair_def
  isHighSurrogate_def isLowSurrogate_def lineTerminator_def longestOf_def emojiClass_def
  invisibleChars_def notDetected_def

lemma replicate_5: "replicate 5 x = [x, x, x, x, x]"
  by (simp add: numeral_eq_Suc)

lemma replicate_10: "replicate 10 x = [x, x, x, x, x, x, x, x, x, x]"
  by (simp add: numeral_eq_Suc)

lemmas spam_simps = AntiSpam_detect_def AntiSpam_settings_def detectRapidFire_def
  detectDuplicate_def detectCharacterFlood_def getSpamType_def defaultConfig_def
  functionKeys_def protoKey_def

section \<open>Results about the action matrices\<close>

text \<open>
  C1 (as stated, refuted).  The claim says every module applies the one matrix of the
  specification.  AntiVirtex answers warn for (medium, STRICT) where the matrix says
  mute, AntiToxic answers mute for (low, LOCKDOWN) where the matrix says warn, and the
  two modules disagree with each other on (high, STRICT).
\<close>

theorem C1_single_matrix_counterexample:
  "AntiVirtex_determineAction Medium STRICT \<noteq> spec_actionMatrix Medium STRICT
   \<and> AntiToxic_determineAction Low LOCKDOWN \<noteq> spec_actionMatrix Low LOCKDOWN
   \<and> AntiVirtex_determineAction High STRICT \<noteq> AntiToxic_determineAction High STRICT"
  by (simp add: matrix_simps)

text \<open>
  C1 (amended).  Each module has its own fixed matrix, a function of (severity, mode)
  alone.  In NORMAL mode low, medium and high give warn in both modules.  AntiVirtex:
  critical gives kick in every mode; STRICT gives warn for low and medium and kick for
  high; LOCKDOWN gives warn for low and kick for medium and high.  AntiToxic: STRICT
  gives warn for low and mute for medium and high; LOCKDOWN gives mute for low and kick
  for medium and high.
\<close>

theorem C1_per_module_matrices:
  "AntiVirtex_determineAction Critical m = Kick
   \<and> AntiVirtex_determineAction Low NORMAL = Warn
   \<and> AntiVirtex_determineAction Medium NORMAL = Warn
   \<and> AntiVirtex_determineAction High NORMAL = Warn
   \<and> AntiVirtex_determineAction Low STRICT = Warn
   \<and> AntiVirtex_determineAction Medium STRICT = Warn
   \<and> AntiVirtex_determineAction High STRICT = Kick
   \<and> AntiVirtex_determineAction Low LOCKDOWN = Warn
   \<and> AntiVirtex_determineAction Medium LOCKDOWN = Kick
   \<and> AntiVirtex_determineAction High LOCKDOWN = Kick
   \<and> AntiToxic_determineAction Low NORMAL = Warn
   \<and> AntiToxic_determineAction Medium NORMAL = Warn
   \<and> AntiToxic_determineAction High NORMAL = Warn
   \<and> AntiToxic_determineAction Low STRICT = Warn
   \<and> AntiToxic_determineAction Medium STRICT = Mute
   \<and> AntiToxic_determineAction High STRICT = Mute
   \<and> AntiToxic_determineAction Low LOCKDOWN = Mute
   \<and> AntiToxic_determineAction Medium LOCKDOWN = Kick
   \<and> AntiToxic_determineAction High LOCKDOWN = Kick"
  by (simp add: matrix_simps)

section \<open>Warning escalation in the violation handlers\<close>















section \<open>Repeated characters\<close>

lemma takeWhile_run:
  "takeWhile (\<lambda>x. x = c) (replicate k c @ post) = replicate k c @ takeWhile (\<lambda>x. x = c) post"
  by (induction k) simp_all

lemma repeatedMatches_finds_run:
  assumes "\<not> lineTerminator c" and "10 \<le> n"
  shows "msg = pre @ replicate n c @ post
         \<Longrightarrow> \<exists>m \<in> set (repeatedMatches msg). n \<le> length m"
proof (induction msg arbitrary: pre rule: repeatedMatches.induct)
  case 1
  then show ?case using assms(2) by simp
next
  case (2 c0 rest)
  let ?R = "replicate n c @ post"
  show ?case
  proof (cases pre)
    case Nil
    with "2.prems" assms(2) have c0: "c0 = c" and rest: "rest = replicate (n - 1) c @ post"
      by (cases n; simp)+
    have "n - 1 \<le> length (takeWhile (\<lambda>x. x = c) rest)"
      by (simp add: rest takeWhile_run)
    then show ?thesis using assms c0 by (auto simp: Let_def)
  next
    case (Cons p pre')
    with "2.prems" have c0: "c0 = p" and rest: "rest = pre' @ ?R" by simp_all
    show ?thesis
    proof (cases "\<not> lineTerminator c0 \<and> 9 \<le> length (takeWhile (\<lambda>x. x = c0) rest)")
      case False
      then have "repeatedMatches (c0 # rest) = repeatedMatches rest" by auto
      moreover have "\<exists>m \<in> set (repeatedMatches rest). n \<le> length m"
        using "2.IH"(2) [OF False rest] .
      ultimately show ?thesis by simp
    next
      case True
      then have unf: "repeatedMatches (c0 # rest)
          = (c0 # takeWhile (\<lambda>x. x = c0) rest)
            # repeatedMatches (dropWhile (\<lambda>x. x = c0) rest)" by simp
      show ?thesis
      proof (cases "\<forall>x \<in> set pre'. x = c0")
        case False
        then have "dropWhile (\<lambda>x. x = c0) rest = dropWhile (\<lambda>x. x = c0) pre' @ ?R"
          by (auto simp: rest dropWhile_append1)
        from "2.IH"(1) [OF True this] unf show ?thesis by simp
      next
        case allp: True
        show ?thesis
        proof (cases "c0 = c")
          case True
          have "takeWhile (\<lambda>x. x = c0) rest
                  = pre' @ replicate n c @ takeWhile (\<lambda>x. x = c) post"
            using allp True by (simp add: rest takeWhile_append2 takeWhile_run)
          then have "n \<le> length (c0 # takeWhile (\<lambda>x. x = c0) rest)" by simp
          with unf show ?thesis by simp
        next
          case False
          have "dropWhile (\<lambda>x. x = c0) rest = dropWhile (\<lambda>x. x = c0) ?R"
            using allp by (simp add: rest dropWhile_append2)
          also have "\<dots> = [] @ ?R" using False assms(2) by (cases n) auto
          finally have "dropWhile (\<lambda>x. x = c0) rest = [] @ ?R" .
          from "2.IH"(1) [OF True this] unf show ?thesis by simp
        qed
      qed
    qed
  qed
qed

lemma fold_max_ge: "a \<le> fold max xs (a::nat)"
  by (induction xs arbitrary: a) (auto intro: order_trans [OF max.cobounded2])

lemma fold_max_member: "x \<in> set xs \<Longrightarrow> x \<le> fold max xs (a::nat)"
proof (induction xs arbitrary: a)
  case Nil
  then show ?case by simp
next
  case (Cons y ys)
  then show ?case
    using fold_max_ge [of "max y a" ys] by auto
qed

lemma longestOf_ge: "m \<in> set ms \<Longrightarrow> length m \<le> longestOf ms"
  by (simp add: longestOf_def fold_max_member)

lemma repeated_run_verdict:
  assumes "\<not> lineTerminator c" and "50 \<le> n"
  shows "AntiVirtex_checkRepeatedCharacters (AntiVirtex_settings conf) (pre @ replicate n c @ post)
           = \<lparr> detected = True, dtype = ''repeated_characters'', dseverity = Some High,
               dcount = longestOf (repeatedMatches (pre @ replicate n c @ post)) \<rparr>"
    and "n \<le> longestOf (repeatedMatches (pre @ replicate n c @ post))"
    and "length (pre @ replicate n c @ post) \<le> maxLength (AntiVirtex_settings conf)
           \<Longrightarrow> AntiVirtex_detect (AntiVirtex_settings conf) lis (pre @ replicate n c @ post)
               = (AntiVirtex_checkRepeatedCharacters (AntiVirtex_settings conf)
                    (pre @ replicate n c @ post), lis)"
proof -
  let ?msg = "pre @ replicate n c @ post"
  let ?st = "AntiVirtex_settings conf"
  from assms(2) have n10: "10 \<le> n" by simp
  obtain m where m: "m \<in> set (repeatedMatches ?msg)" and len: "n \<le> length m"
    using repeatedMatches_finds_run [OF assms(1) n10 refl, of pre post] by blast
  have ne: "repeatedMatches ?msg \<noteq> []" using m by auto
  show long: "n \<le> longestOf (repeatedMatches ?msg)"
    using longestOf_ge [OF m] len by simp
  have thr: "repeatedCharThreshold ?st = 50" by (simp add: AntiVirtex_settings_def)
  show v: "AntiVirtex_checkRepeatedCharacters ?st ?msg
           = \<lparr> detected = True, dtype = ''repeated_characters'', dseverity = Some High,
               dcount = longestOf (repeatedMatches ?msg) \<rparr>"
    using ne long assms(2) thr by (simp add: AntiVirtex_checkRepeatedCharacters_def Let_def)
  have nonempty: "?msg \<noteq> []" using assms(2) by auto
  show "length ?msg \<le> maxLength ?st
           \<Longrightarrow> AntiVirtex_detect ?st lis ?msg = (AntiVirtex_checkRepeatedCharacters ?st ?msg, lis)"
    using nonempty v
    by (simp add: AntiVirtex_detect_def AntiVirtex_checkLength_def notDetected_def Let_def)
qed

text \<open>
  C8 (as stated, refuted).  Ten equal visible characters (here ten times the letter a)
  are matched by the regular expression, but the longest match is then compared with
  \<open>repeatedCharThreshold = 50\<close>: the check, and the whole detector, answer
  \<open>detected = false\<close>.
\<close>

theorem C8_ten_repeats_counterexample:
  "\<not> detected (AntiVirtex_checkRepeatedCharacters (AntiVirtex_settings defaultConfig)
        (replicate 10 0x61))
   \<and> \<not> detected (fst (AntiVirtex_detect (AntiVirtex_settings defaultConfig) [0, 0, 0, 0]
        (replicate 10 0x61)))"
  by (simp add: replicate_10 virtex_simps Let_def)

text \<open>
  C8 (amended).  For every message that contains a run of 50 or more copies of one
  code unit other than a line terminator, the repeated-character check returns
  \<open>detected = true\<close> with type \<open>repeated_characters\<close>, severity high and a count of at
  least the length of the run; and when the message is not longer than the configured
  maximum length, that verdict is the verdict of \<open>AntiVirtex.detect\<close>.
\<close>

theorem C8_fifty_repeats_detected:
  assumes "\<not> lineTerminator c" and "50 \<le> n"
  shows "detected (AntiVirtex_checkRepeatedCharacters (AntiVirtex_settings conf)
            (pre @ replicate n c @ post))
       \<and> dtype (AntiVirtex_checkRepeatedCharacters (AntiVirtex_settings conf)
            (pre @ replicate n c @ post)) = ''repeated_characters''
       \<and> dseverity (AntiVirtex_checkRepeatedCharacters (AntiVirtex_settings conf)
            (pre @ replicate n c @ post)) = Some High
       \<and> n \<le> dcount (AntiVirtex_checkRepeatedCharacters (AntiVirtex_settings conf)
            (pre @ replicate n c @ post))
       \<and> (length (pre @ replicate n c @ post) \<le> maxLength (AntiVirtex_settings conf)
            \<longrightarrow> AntiVirtex_detect (AntiVirtex_settings conf) lis (pre @ replicate n c @ post)
                = (AntiVirtex_checkRepeatedCharacters (AntiVirtex_settings conf)
                     (pre @ replicate n c @ post), lis))"
  using repeated_run_verdict(2) [OF assms, of pre post]
  by (simp add: repeated_run_verdict(1,3) [OF assms])

text \<open>
  The theorem for sixty times the letter a under the default configuration: the
  detector answers with the repeated-character verdict, severity high, count 60.
\<close>

theorem C8_fifty_repeats_detected_witness:
  "\<not> lineTerminator 0x61 \<and> (50::nat) \<le> 60
   \<and> length ([] @ replicate 60 (0x61 :: 16 word) @ []) \<le> maxLength (AntiVirtex_settings defaultConfig)
   \<and> detected (AntiVirtex_checkRepeatedCharacters (AntiVirtex_settings defaultConfig)
        ([] @ replicate 60 0x61 @ []))
   \<and> dseverity (AntiVirtex_checkRepeatedCharacters (AntiVirtex_settings defaultConfig)
        ([] @ replicate 60 0x61 @ [])) = Some High
   \<and> AntiVirtex_detect (AntiVirtex_settings defaultConfig) [0, 0, 0, 0] ([] @ replicate 60 0x61 @ [])
       = (AntiVirtex_checkRepeatedCharacters (AntiVirtex_settings defaultConfig)
            ([] @ replicate 60 0x61 @ []), [0, 0, 0, 0])"
proof -
  have a: "\<not> lineTerminator 0x61" by (simp add: lineTerminator_def)
  have b: "(50::nat) \<le> 60" by simp
  have c: "length ([] @ replicate 60 (0x61 :: 16 word) @ [])
             \<le> maxLength (AntiVirtex_settings defaultConfig)"
    by (simp add: AntiVirtex_settings_def defaultConfig_def)
  from C8_fifty_repeats_detected [OF a b, of defaultConfig "[]" "[]" "[0, 0, 0, 0]"] a b c
  show ?thesis by blast
qed

section \<open>Module priority in the defense engine\<close>

lemma modules_order:
  "map moduleName DefenseEngine_modules
     = [''antiVirtex'', ''antiToxic'', ''antiLink'', ''antiSpam'', ''geoRestriction'']"
  by (simp add: DefenseEngine_modules_def DefenseEngine_registered_def)

lemma engineCalls_append [simp]: "engineCalls (xs @ ys) = engineCalls xs @ engineCalls ys"
  by (simp add: engineCalls_def)

lemma AntiVirtex_handle_engineCalls:
  "engineCalls (calls (AntiVirtex_handle g s k v w)) = engineCalls (calls w)"
  by (simp add: AntiVirtex_handle_def transport_simps engineCalls_def Let_def
      split: prod.splits)

lemma AntiToxic_handle_engineCalls:
  "engineCalls (calls (AntiToxic_handle now g s k v w)) = engineCalls (calls w)"
  by (simp add: AntiToxic_handle_def transport_simps engineCalls_def Let_def
      split: prod.splits option.splits)

lemma AntiLink_handle_engineCalls:
  "engineCalls (calls (AntiLink_handle now g s k w)) = engineCalls (calls w)"
  by (simp add: AntiLink_handle_def transport_simps engineCalls_def Let_def
      split: prod.splits)

lemma AntiSpam_handle_engineCalls:
  "engineCalls (calls (AntiSpam_handle now g s v w)) = engineCalls (calls w)"
  by (simp add: AntiSpam_handle_def transport_simps engineCalls_def Let_def
      split: prod.splits)

lemma handleViolation_engineCalls:
  "engineCalls (calls (handleViolation now name g s k v w)) = engineCalls (calls w)"
  by (simp add: handleViolation_def AntiVirtex_handle_engineCalls AntiToxic_handle_engineCalls
      AntiLink_handle_engineCalls AntiSpam_handle_engineCalls)

lemma enabledNames_Cons:
  "enabledNames d g (m # ms)
     = (if module_isEnabled d (moduleName m) g then [moduleName m] else []) @ enabledNames d g ms"
  by (simp add: enabledNames_def)

lemma verdictOf_cong:
  "cfg w = cfg w' \<Longrightarrow> virtexLastIndex w = virtexLastIndex w'
     \<Longrightarrow> messageTracker w = messageTracker w'
     \<Longrightarrow> verdictOf ext now info name w = verdictOf ext now info name w'"
  by (simp add: verdictOf_def runModuleDetection_def split_beta)

lemma consult_frame:
  "db (consult ext now info n w) = db w \<and> cfg (consult ext now info n w) = cfg w
   \<and> stats (consult ext now info n w) = stats w
   \<and> calls (consult ext now info n w) = calls w @ [DetectCall n]
   \<and> (n \<noteq> ''antiVirtex'' \<longrightarrow> virtexLastIndex (consult ext now info n w) = virtexLastIndex w)
   \<and> (n \<noteq> ''antiSpam'' \<longrightarrow> messageTracker (consult ext now info n w) = messageTracker w)"
  by (simp add: consult_def runModuleDetection_def split_beta)

lemma verdictOf_consult:
  assumes "n' \<noteq> n"
  shows "verdictOf ext now info n' (consult ext now info n w) = verdictOf ext now info n' w"
proof -
  let ?w1 = "w\<lparr>calls := calls w @ [DetectCall n]\<rparr>"
  have "verdictOf ext now info n' (consult ext now info n w) = verdictOf ext now info n' ?w1"
    unfolding verdictOf_def consult_def runModuleDetection_def
    using assms by (cases "n = ''antiVirtex''"; cases "n = ''antiSpam''") (simp_all add: split_beta)
  also have "\<dots> = verdictOf ext now info n' w" by (rule verdictOf_cong) simp_all
  finally show ?thesis .
qed

lemma triggers_consult:
  assumes "n' \<noteq> n"
  shows "triggers ext now info (consult ext now info n w) n' = triggers ext now info w n'"
  using assms by (simp add: triggers_def verdictOf_consult consult_frame)

lemma run_consult:
  "runModuleDetection ext now n (mi_content info) (mi_sender info)
     (w\<lparr>calls := calls w @ [DetectCall n]\<rparr>)
   = (verdictOf ext now info n w, consult ext now info n w)"
proof -
  have "verdictOf ext now info n (w\<lparr>calls := calls w @ [DetectCall n]\<rparr>) = verdictOf ext now info n w"
    by (rule verdictOf_cong) simp_all
  then show ?thesis by (simp add: verdictOf_def consult_def prod_eq_iff)
qed

lemma enabledNames_consult:
  "enabledNames (db (consult ext now info n w)) g ms = enabledNames (db w) g ms"
  by (simp add: consult_frame)

lemma consulted_append:
  "consulted ext now info (xs @ ys) w = consulted ext now info ys (consulted ext now info xs w)"
  by (simp add: consulted_def)

lemma checkModules_first_trigger:
  assumes "distinct (map moduleName (pre @ [m]))"
      and "triggers ext now info w (moduleName m)"
      and "\<forall>p \<in> set pre. \<not> triggers ext now info w (moduleName p)"
  shows "checkModules ext now key info (pre @ m # post) w
         = (let wd = consulted ext now info
                       (enabledNames (db w) (mi_groupId info) pre @ [moduleName m]) w;
                det = verdictOf ext now info (moduleName m) w;
                w3 = wd\<lparr>stats := (stats wd)\<lparr>violationsSeen := violationsSeen (stats wd) + 1\<rparr>,
                        calls := calls wd @ [HandleCall (moduleName m)]\<rparr>;
                w4 = handleViolation now (moduleName m) (mi_groupId info) (mi_sender info)
                       key det w3
            in (\<lparr> blocked = True, blockedBy = Some (moduleName m), verdict = Some det \<rparr>,
                w4\<lparr>stats := (stats w4)\<lparr>blockedCount := blockedCount (stats w4) + 1\<rparr>\<rparr>))"
  using assms
proof (induction pre arbitrary: w)
  case Nil
  then show ?case
    by (simp add: triggers_def run_consult Let_def consulted_def enabledNames_def)
next
  case (Cons p pre)
  let ?g = "mi_groupId info"
  have ne: "moduleName m \<noteq> moduleName p" "\<forall>q \<in> set pre. moduleName q \<noteq> moduleName p"
    using Cons.prems(1) by (auto simp: image_iff)
  have d: "distinct (map moduleName (pre @ [m]))" using Cons.prems(1) by simp
  have np: "\<not> triggers ext now info w (moduleName p)" using Cons.prems(3) by simp
  show ?case
  proof (cases "module_isEnabled (db w) (moduleName p) ?g")
    case False
    have "\<forall>q \<in> set pre. \<not> triggers ext now info w (moduleName q)" using Cons.prems(3) by simp
    from Cons.IH [OF d Cons.prems(2) this] False
    show ?thesis by (simp add: enabledNames_Cons)
  next
    case True
    let ?w2 = "consult ext now info (moduleName p) w"
    have nd: "\<not> detected (verdictOf ext now info (moduleName p) w)"
      using np True by (simp add: triggers_def)
    have t: "triggers ext now info ?w2 (moduleName m)"
      using Cons.prems(2) ne(1) by (simp add: triggers_consult)
    have q: "\<forall>q \<in> set pre. \<not> triggers ext now info ?w2 (moduleName q)"
      using Cons.prems(3) ne(2) by (simp add: triggers_consult)
    have step: "checkModules ext now key info ((p # pre) @ m # post) w
                = checkModules ext now key info (pre @ m # post) ?w2"
      using True nd by (simp add: run_consult)
    have v: "verdictOf ext now info (moduleName m) ?w2 = verdictOf ext now info (moduleName m) w"
      using ne(1) by (simp add: verdictOf_consult)
    have e: "enabledNames (db w) ?g (p # pre) = moduleName p # enabledNames (db w) ?g pre"
      using True by (simp add: enabledNames_Cons)
    show ?thesis
      unfolding step Cons.IH [OF d t q] v e
      by (simp add: consult_frame consulted_def)
  qed
qed

lemma checkModules_no_trigger:
  assumes "distinct (map moduleName ms)"
      and "\<forall>p \<in> set ms. \<not> triggers ext now info w (moduleName p)"
  shows "checkModules ext now key info ms w
         = (notBlocked, consulted ext now info (enabledNames (db w) (mi_groupId info) ms) w)"
  using assms
proof (induction ms arbitrary: w)
  case Nil
  then show ?case by (simp add: consulted_def enabledNames_def)
next
  case (Cons p ms)
  let ?g = "mi_groupId info"
  have ne: "\<forall>q \<in> set ms. moduleName q \<noteq> moduleName p"
    using Cons.prems(1) by (auto simp: image_iff)
  have d: "distinct (map moduleName ms)" using Cons.prems(1) by simp
  show ?case
  proof (cases "module_isEnabled (db w) (moduleName p) ?g")
    case False
    have "\<forall>q \<in> set ms. \<not> triggers ext now info w (moduleName q)" using Cons.prems(2) by simp
    from Cons.IH [OF d this] False show ?thesis by (simp add: enabledNames_Cons)
  next
    case True
    let ?w2 = "consult ext now info (moduleName p) w"
    have nd: "\<not> detected (verdictOf ext now info (moduleName p) w)"
      using Cons.prems(2) True by (simp add: triggers_def)
    have q: "\<forall>q \<in> set ms. \<not> triggers ext now info ?w2 (moduleName q)"
      using Cons.prems(2) ne by (simp add: triggers_consult)
    have step: "checkModules ext now key info (p # ms) w
                = checkModules ext now key info ms ?w2"
      using True nd by (simp add: run_consult)
    have e: "enabledNames (db w) ?g (p # ms) = moduleName p # enabledNames (db w) ?g ms"
      using True by (simp add: enabledNames_Cons)
    show ?thesis
      unfolding step Cons.IH [OF d q] e
      by (simp add: consult_frame consulted_def)
  qed
qed

lemma consulted_calls:
  "calls (consulted ext now info names w) = calls w @ map DetectCall names"
proof (induction names arbitrary: w)
  case Nil
  then show ?case by (simp add: consulted_def)
next
  case (Cons n names)
  have "consulted ext now info (n # names) w
        = consulted ext now info names (consult ext now info n w)"
    by (simp add: consulted_def)
  then show ?case by (simp add: Cons.IH consult_frame)
qed

lemma triggers_stats:
  "triggers ext now info (w\<lparr>stats := s\<rparr>) name = triggers ext now info w name"
proof -
  have "verdictOf ext now info name (w\<lparr>stats := s\<rparr>) = verdictOf ext now info name w"
    by (rule verdictOf_cong) simp_all
  then show ?thesis by (simp add: triggers_def)
qed

lemma verdictOf_stats:
  "verdictOf ext now info name (w\<lparr>stats := s\<rparr>) = verdictOf ext now info name w"
  by (rule verdictOf_cong) simp_all

lemma modules_distinct: "distinct (map moduleName DefenseEngine_modules)"
  by (simp add: modules_order)

text \<open>
  C3.  The engine's modules, sorted by priority, are antiVirtex (flood and crash
  patterns), antiToxic (profanity), antiLink, antiSpam (message volume) and
  geoRestriction.  Let a message pass the engine's guards (protected group, sender
  neither author nor owner nor the bot).  If a module triggers on it (it is enabled and
  its verdict has \<open>detected = true\<close>) and no module of higher priority triggers, then
  \<open>checkMessage\<close> blocks the message by that module and returns its verdict; the
  resulting state is the one in which exactly the enabled modules of higher priority
  and the blocking module were consulted, in priority order, and the handler of the
  blocking module ran on its verdict; the modules of lower priority are not consulted
  and do not influence the result, whatever their verdicts would be.  If no module
  triggers, the message is not blocked, every enabled module was consulted and no
  handler ran.
\<close>

theorem C3_priority_short_circuit:
  assumes "\<not> (mi_isGroup info \<and> \<not> isProtected (db w) (mi_groupId info))"
      and "\<not> isAuthorOrOwner (db w) (numberOf (mi_sender info))"
      and "mi_sender info \<noteq> botId"
  shows "map moduleName DefenseEngine_modules
           = [''antiVirtex'', ''antiToxic'', ''antiLink'', ''antiSpam'', ''geoRestriction'']
       \<and> (DefenseEngine_modules = pre @ m # post
            \<and> triggers ext now info w (moduleName m)
            \<and> (\<forall>p \<in> set pre. \<not> triggers ext now info w (moduleName p))
          \<longrightarrow> (let nm = moduleName m;
                    g = mi_groupId info;
                    det = verdictOf ext now info nm w;
                    w0 = w\<lparr>stats := (stats w)\<lparr>totalChecks := totalChecks (stats w) + 1\<rparr>\<rparr>;
                    wd = consulted ext now info (enabledNames (db w) g pre @ [nm]) w0;
                    w3 = wd\<lparr>stats := (stats wd)\<lparr>violationsSeen := violationsSeen (stats wd) + 1\<rparr>,
                            calls := calls wd @ [HandleCall nm]\<rparr>;
                    w4 = handleViolation now nm g (mi_sender info) key det w3
                in checkMessage ext now botId key info w
                     = (\<lparr> blocked = True, blockedBy = Some nm, verdict = Some det \<rparr>,
                        w4\<lparr>stats := (stats w4)\<lparr>blockedCount := blockedCount (stats w4) + 1\<rparr>\<rparr>)
                   \<and> calls w3 = calls w @ map DetectCall (enabledNames (db w) g pre)
                                  @ [DetectCall nm, HandleCall nm]
                   \<and> engineCalls (calls (snd (checkMessage ext now botId key info w)))
                       = engineCalls (calls w)
                         @ map DetectCall (enabledNames (db w) g pre)
                         @ [DetectCall nm, HandleCall nm]))
       \<and> ((\<forall>p \<in> set DefenseEngine_modules. \<not> triggers ext now info w (moduleName p))
          \<longrightarrow> (let g = mi_groupId info;
                    w0 = w\<lparr>stats := (stats w)\<lparr>totalChecks := totalChecks (stats w) + 1\<rparr>\<rparr>;
                    wd = consulted ext now info (enabledNames (db w) g DefenseEngine_modules) w0
                in checkMessage ext now botId key info w = (notBlocked, wd)
                   \<and> calls wd = calls w
                        @ map DetectCall (enabledNames (db w) g DefenseEngine_modules)))"
proof -
  let ?w0 = "w\<lparr>stats := (stats w)\<lparr>totalChecks := totalChecks (stats w) + 1\<rparr>\<rparr>"
  let ?g = "mi_groupId info"
  have cm: "checkMessage ext now botId key info w
            = checkModules ext now key info DefenseEngine_modules ?w0"
    using assms by (auto simp: checkMessage_def)
  have first: "let nm = moduleName m;
                    g = mi_groupId info;
                    det = verdictOf ext now info nm w;
                    w0 = w\<lparr>stats := (stats w)\<lparr>totalChecks := totalChecks (stats w) + 1\<rparr>\<rparr>;
                    wd = consulted ext now info (enabledNames (db w) g pre @ [nm]) w0;
                    w3 = wd\<lparr>stats := (stats wd)\<lparr>violationsSeen := violationsSeen (stats wd) + 1\<rparr>,
                            calls := calls wd @ [HandleCall nm]\<rparr>;
                    w4 = handleViolation now nm g (mi_sender info) key det w3
                in checkMessage ext now botId key info w
                     = (\<lparr> blocked = True, blockedBy = Some nm, verdict = Some det \<rparr>,
                        w4\<lparr>stats := (stats w4)\<lparr>blockedCount := blockedCount (stats w4) + 1\<rparr>\<rparr>)
                   \<and> calls w3 = calls w @ map DetectCall (enabledNames (db w) g pre)
                                  @ [DetectCall nm, HandleCall nm]
                   \<and> engineCalls (calls (snd (checkMessage ext now botId key info w)))
                       = engineCalls (calls w)
                         @ map DetectCall (enabledNames (db w) g pre)
                         @ [DetectCall nm, HandleCall nm]"
    if split: "DefenseEngine_modules = pre @ m # post"
      and trig: "triggers ext now info w (moduleName m)"
      and quiet: "\<forall>p \<in> set pre. \<not> triggers ext now info w (moduleName p)"
  proof -
    have d: "distinct (map moduleName (pre @ [m]))"
      using modules_distinct unfolding split by simp
    have t: "triggers ext now info ?w0 (moduleName m)"
      using trig by (simp add: triggers_stats)
    have q: "\<forall>p \<in> set pre. \<not> triggers ext now info ?w0 (moduleName p)"
      using quiet by (simp add: triggers_stats)
    note run = checkModules_first_trigger [OF d t q, of key post]
    have e: "engineCalls (map DetectCall ns) = map DetectCall ns" for ns
      by (induction ns) (simp_all add: engineCalls_def)
    have h: "engineCalls [DetectCall a, HandleCall b] = [DetectCall a, HandleCall b]" for a b
      by (simp add: engineCalls_def)
    show ?thesis
      unfolding cm split run
      by (simp add: Let_def verdictOf_stats consulted_calls handleViolation_engineCalls e h)
  qed
  have none: "let g = mi_groupId info;
                    w0 = w\<lparr>stats := (stats w)\<lparr>totalChecks := totalChecks (stats w) + 1\<rparr>\<rparr>;
                    wd = consulted ext now info (enabledNames (db w) g DefenseEngine_modules) w0
                in checkMessage ext now botId key info w = (notBlocked, wd)
                   \<and> calls wd = calls w
                        @ map DetectCall (enabledNames (db w) g DefenseEngine_modules)"
    if quiet: "\<forall>p \<in> set DefenseEngine_modules. \<not> triggers ext now info w (moduleName p)"
  proof -
    have q: "\<forall>p \<in> set DefenseEngine_modules. \<not> triggers ext now info ?w0 (moduleName p)"
      using quiet by (simp add: triggers_stats)
    note run = checkModules_no_trigger [OF modules_distinct q, of key]
    show ?thesis unfolding cm run by (simp add: Let_def consulted_calls)
  qed
  from first none show ?thesis by (simp add: modules_order)
qed

lemma flood_checkMessage:
  "checkMessage quietExternals 1000 ''bot@s.whatsapp.net'' 7 floodInfo exampleWorld
     = (\<lparr> blocked = True, blockedBy = Some ''antiVirtex'',
          verdict = Some (AntiVirtex_checkRepeatedCharacters (AntiVirtex_settings defaultConfig)
                            (mi_content floodInfo)) \<rparr>,
        exampleWorld\<lparr>
          db := (db exampleWorld)\<lparr>warned := [''6283000'' \<mapsto> 1],
                                  violations := [''antiVirtex'' \<mapsto> 1]\<rparr>,
          stats := \<lparr> totalChecks = 1, violationsSeen = 1, blockedCount = 1 \<rparr>,
          calls := [DetectCall ''antiVirtex'', HandleCall ''antiVirtex'',
                    DeleteMessage ''g1'' 7,
                    SendMessage ''g1'' (VirtexWarnNotice ''6283000'' 1 False)]\<rparr>)"
proof -
  have nl: "\<not> lineTerminator 0x61" by (simp add: lineTerminator_def)
  have n: "(50::nat) \<le> 60" by simp
  have len: "length ([] @ replicate 60 (0x61 :: 16 word) @ [])
               \<le> maxLength (AntiVirtex_settings defaultConfig)"
    by (simp add: AntiVirtex_settings_def defaultConfig_def)
  have v: "AntiVirtex_checkRepeatedCharacters (AntiVirtex_settings defaultConfig)
             (replicate 60 0x61)
           = \<lparr> detected = True, dtype = ''repeated_characters'', dseverity = Some High,
               dcount = longestOf (repeatedMatches (replicate 60 0x61)) \<rparr>"
    using repeated_run_verdict(1) [OF nl n, of defaultConfig "[]" "[]"] by simp
  have d: "AntiVirtex_detect (AntiVirtex_settings defaultConfig) [0, 0, 0, 0] (replicate 60 0x61)
           = (AntiVirtex_checkRepeatedCharacters (AntiVirtex_settings defaultConfig)
                (replicate 60 0x61), [0, 0, 0, 0])"
    using repeated_run_verdict(3) [OF nl n len, of "[0, 0, 0, 0]"] by simp
  show ?thesis
    by (simp add: checkMessage_def DefenseEngine_modules_def DefenseEngine_registered_def
        module_isEnabled_def runModuleDetection_def handleViolation_def AntiVirtex_handle_def
        AntiVirtex_actionFor_def matrix_simps addWarn_def getWarnCount_def incrementViolation_def
        db_simps transport_simps floodInfo_def exampleWorld_def exampleDb_def d v Let_def)
qed

lemma ten_checkMessage:
  "checkMessage quietExternals 1000 ''bot@s.whatsapp.net'' 8 tenInfo exampleWorld
     = (\<lparr> blocked = True, blockedBy = Some ''antiSpam'',
          verdict = Some \<lparr> detected = True, dtype = ''character_flood'', dseverity = None,
                           dcount = 1 \<rparr> \<rparr>,
        exampleWorld\<lparr>
          db := (db exampleWorld)\<lparr>muted := [''6283000'' \<mapsto> (601000, ''Anti-spam: character_flood'')],
                                  violations := [''antiSpam'' \<mapsto> 1]\<rparr>,
          stats := \<lparr> totalChecks = 1, violationsSeen = 1, blockedCount = 1 \<rparr>,
          calls := [DetectCall ''antiVirtex'', DetectCall ''antiToxic'', DetectCall ''antiLink'',
                    DetectCall ''antiSpam'', HandleCall ''antiSpam'',
                    SendMessage ''g1'' (SpamMuteNotice ''6283000'' 10)]\<rparr>)"
proof -
  have v: "AntiVirtex_detect (AntiVirtex_settings defaultConfig) [0, 0, 0, 0] (replicate 10 0x61)
           = (notDetected, [0, 0, 0, 0])"
    by (simp add: replicate_10 virtex_simps Let_def)
  have s: "AntiSpam_detect id (AntiSpam_settings defaultConfig) ''6283000@s.whatsapp.net''
             (replicate 10 0x61) 1000 Map.empty
           = (\<lparr> detected = True, dtype = ''character_flood'', dseverity = None, dcount = 1 \<rparr>,
              [''6283000'' \<mapsto> [(1000, replicate 10 0x61)]])"
    by (simp add: replicate_10 spam_simps lineTerminator_def numberOf_def Let_def)
  show ?thesis
    by (simp add: checkMessage_def DefenseEngine_modules_def DefenseEngine_registered_def
        module_isEnabled_def runModuleDetection_def handleViolation_def AntiSpam_handle_def
        AntiSpam_muteDuration_def addMute_def incrementViolation_def quietExternals_def
        notDetected_def db_simps transport_simps tenInfo_def exampleWorld_def exampleDb_def
        v s Let_def)
qed

text \<open>
  The theorem at two messages of a plain member in the protected example group.
  Sixty times the letter a triggers the flood module (repeated characters) and the
  message-volume module (character flood): the engine blocks it by the flood module
  alone, with that module's verdict; its handler deleted the message and sent the
  warning, and the spam module's tracker is untouched.  Ten times the letter a does
  not trigger the flood module, the profanity module or the link module, but the
  message-volume module: the engine consults the four in priority order and blocks by
  the last, whose handler sends the mute notice.
\<close>

theorem C3_priority_short_circuit_witness:
  "triggers quietExternals 1000 floodInfo exampleWorld ''antiVirtex''
   \<and> triggers quietExternals 1000 floodInfo exampleWorld ''antiSpam''
   \<and> fst (checkMessage quietExternals 1000 ''bot@s.whatsapp.net'' 7 floodInfo exampleWorld)
       = \<lparr> blocked = True, blockedBy = Some ''antiVirtex'',
           verdict = Some (verdictOf quietExternals 1000 floodInfo ''antiVirtex'' exampleWorld) \<rparr>
   \<and> detected (verdictOf quietExternals 1000 floodInfo ''antiVirtex'' exampleWorld)
   \<and> calls (snd (checkMessage quietExternals 1000 ''bot@s.whatsapp.net'' 7 floodInfo
        exampleWorld))
       = [DetectCall ''antiVirtex'', HandleCall ''antiVirtex'', DeleteMessage ''g1'' 7,
          SendMessage ''g1'' (VirtexWarnNotice ''6283000'' 1 False)]
   \<and> messageTracker (snd (checkMessage quietExternals 1000 ''bot@s.whatsapp.net'' 7 floodInfo
        exampleWorld)) = messageTracker exampleWorld
   \<and> \<not> triggers quietExternals 1000 tenInfo exampleWorld ''antiVirtex''
   \<and> \<not> triggers quietExternals 1000 tenInfo exampleWorld ''antiToxic''
   \<and> \<not> triggers quietExternals 1000 tenInfo exampleWorld ''antiLink''
   \<and> triggers quietExternals 1000 tenInfo exampleWorld ''antiSpam''
   \<and> fst (checkMessage quietExternals 1000 ''bot@s.whatsapp.net'' 8 tenInfo exampleWorld)
       = \<lparr> blocked = True, blockedBy = Some ''antiSpam'',
           verdict = Some (verdictOf quietExternals 1000 tenInfo ''antiSpam'' exampleWorld) \<rparr>
   \<and> calls (snd (checkMessage quietExternals 1000 ''bot@s.whatsapp.net'' 8 tenInfo
        exampleWorld))
       = [DetectCall ''antiVirtex'', DetectCall ''antiToxic'', DetectCall ''antiLink'',
          DetectCall ''antiSpam'', HandleCall ''antiSpam'',
          SendMessage ''g1'' (SpamMuteNotice ''6283000'' 10)]"
proof -
  let ?bot = "''bot@s.whatsapp.net''"
  let ?M = DefenseEngine_modules
  have ms: "?M = [\<lparr> moduleName = ''antiVirtex'', priority = 1, checkOnNewMember = False \<rparr>,
      \<lparr> moduleName = ''antiToxic'', priority = 2, checkOnNewMember = False \<rparr>,
      \<lparr> moduleName = ''antiLink'', priority = 3, checkOnNewMember = False \<rparr>,
      \<lparr> moduleName = ''antiSpam'', priority = 4, checkOnNewMember = False \<rparr>,
      \<lparr> moduleName = ''geoRestriction'', priority = 5, checkOnNewMember = True \<rparr>]"
    by (simp add: DefenseEngine_modules_def DefenseEngine_registered_def)
  have split0: "?M = [] @ (?M ! 0) # drop 1 ?M" unfolding ms by simp
  have split3: "?M = take 3 ?M @ (?M ! 3) # drop 4 ?M" unfolding ms by simp
  have n0: "moduleName (?M ! 0) = ''antiVirtex''" unfolding ms by simp
  have n3: "moduleName (?M ! 3) = ''antiSpam''" unfolding ms by simp
  have nl: "\<not> lineTerminator 0x61" by (simp add: lineTerminator_def)
  have n: "(50::nat) \<le> 60" by simp
  have len: "length ([] @ replicate 60 (0x61 :: 16 word) @ [])
               \<le> maxLength (AntiVirtex_settings defaultConfig)"
    by (simp add: AntiVirtex_settings_def defaultConfig_def)
  have fv: "verdictOf quietExternals 1000 floodInfo ''antiVirtex'' exampleWorld
            = \<lparr> detected = True, dtype = ''repeated_characters'', dseverity = Some High,
                dcount = longestOf (repeatedMatches (replicate 60 0x61)) \<rparr>"
    using repeated_run_verdict(1) [OF nl n, of defaultConfig "[]" "[]"]
      repeated_run_verdict(3) [OF nl n len, of "[0, 0, 0, 0]"]
    by (simp add: verdictOf_def runModuleDetection_def floodInfo_def exampleWorld_def)
  have en: "module_isEnabled (db exampleWorld) name ''g1''
            = (name \<in> set [''antiVirtex'', ''antiToxic'', ''antiLink'', ''antiSpam'',
                 ''geoRestriction''])" for name
    by (auto simp: module_isEnabled_def db_simps exampleWorld_def exampleDb_def)
  have f1: "triggers quietExternals 1000 floodInfo exampleWorld ''antiVirtex''"
    by (simp add: triggers_def fv) (simp add: floodInfo_def en)
  have "\<exists>m \<in> set (repeatedMatches (replicate 60 0x61)). 60 \<le> length m"
    using repeatedMatches_finds_run [OF nl, of 60 "replicate 60 0x61" "[]" "[]"] by simp
  then have "repeatedMatches (replicate 60 0x61) \<noteq> []" by auto
  then have f2: "triggers quietExternals 1000 floodInfo exampleWorld ''antiSpam''"
    by (simp add: triggers_def verdictOf_def runModuleDetection_def AntiSpam_detect_def
        detectCharacterFlood_def floodInfo_def en Let_def)
  have g1: "\<not> (mi_isGroup floodInfo \<and> \<not> isProtected (db exampleWorld) (mi_groupId floodInfo))"
    by (simp add: floodInfo_def isProtected_def exampleWorld_def exampleDb_def)
  have g2: "\<not> isAuthorOrOwner (db exampleWorld) (numberOf (mi_sender floodInfo))"
    by (simp add: floodInfo_def db_simps exampleWorld_def exampleDb_def)
  have g3: "mi_sender floodInfo \<noteq> ?bot" by (simp add: floodInfo_def)
  have t0: "triggers quietExternals 1000 floodInfo exampleWorld (moduleName (?M ! 0))"
    using f1 by (simp only: n0)
  have q0: "\<forall>p \<in> set []. \<not> triggers quietExternals 1000 floodInfo exampleWorld (moduleName p)"
    by simp
  note A = C3_priority_short_circuit [where info = floodInfo and w = exampleWorld
      and botId = ?bot and pre = "[]" and m = "?M ! 0" and post = "drop 1 ?M"
      and ext = quietExternals and now = 1000 and key = 7, OF g1 g2 g3,
      THEN conjunct2, THEN conjunct1, THEN mp, OF conjI [OF split0 conjI [OF t0 q0]],
      unfolded Let_def, THEN conjunct1]
  have r1: "fst (checkMessage quietExternals 1000 ?bot 7 floodInfo exampleWorld)
       = \<lparr> blocked = True, blockedBy = Some ''antiVirtex'',
           verdict = Some (verdictOf quietExternals 1000 floodInfo ''antiVirtex'' exampleWorld) \<rparr>"
    unfolding A n0 by simp
  have d1: "detected (verdictOf quietExternals 1000 floodInfo ''antiVirtex'' exampleWorld)"
    by (simp add: fv)
  have c1: "calls (snd (checkMessage quietExternals 1000 ?bot 7 floodInfo exampleWorld))
       = [DetectCall ''antiVirtex'', HandleCall ''antiVirtex'', DeleteMessage ''g1'' 7,
          SendMessage ''g1'' (VirtexWarnNotice ''6283000'' 1 False)]"
    by (simp add: flood_checkMessage)
  have m1: "messageTracker (snd (checkMessage quietExternals 1000 ?bot 7 floodInfo exampleWorld))
            = messageTracker exampleWorld"
    by (simp add: flood_checkMessage)
  have tv: "verdictOf quietExternals 1000 tenInfo ''antiVirtex'' exampleWorld = notDetected"
    by (simp add: verdictOf_def runModuleDetection_def tenInfo_def exampleWorld_def
        replicate_10 virtex_simps Let_def)
  have ts: "verdictOf quietExternals 1000 tenInfo ''antiSpam'' exampleWorld
            = \<lparr> detected = True, dtype = ''character_flood'', dseverity = None, dcount = 1 \<rparr>"
    by (simp add: verdictOf_def runModuleDetection_def tenInfo_def exampleWorld_def
        quietExternals_def replicate_10 spam_simps lineTerminator_def numberOf_def Let_def)
  have h1: "\<not> triggers quietExternals 1000 tenInfo exampleWorld ''antiVirtex''"
    by (simp add: triggers_def tv notDetected_def)
  have h2: "\<not> triggers quietExternals 1000 tenInfo exampleWorld ''antiToxic''"
    by (simp add: triggers_def verdictOf_def runModuleDetection_def quietExternals_def
        notDetected_def)
  have h3: "\<not> triggers quietExternals 1000 tenInfo exampleWorld ''antiLink''"
    by (simp add: triggers_def verdictOf_def runModuleDetection_def quietExternals_def
        notDetected_def)
  have h4: "triggers quietExternals 1000 tenInfo exampleWorld ''antiSpam''"
    by (simp add: triggers_def ts) (simp add: tenInfo_def en)
  have e1: "\<not> (mi_isGroup tenInfo \<and> \<not> isProtected (db exampleWorld) (mi_groupId tenInfo))"
    by (simp add: tenInfo_def isProtected_def exampleWorld_def exampleDb_def)
  have e2: "\<not> isAuthorOrOwner (db exampleWorld) (numberOf (mi_sender tenInfo))"
    by (simp add: tenInfo_def db_simps exampleWorld_def exampleDb_def)
  have e3: "mi_sender tenInfo \<noteq> ?bot" by (simp add: tenInfo_def)
  have t3: "triggers quietExternals 1000 tenInfo exampleWorld (moduleName (?M ! 3))"
    using h4 by (simp only: n3)
  have q3: "\<forall>p \<in> set (take 3 ?M).
              \<not> triggers quietExternals 1000 tenInfo exampleWorld (moduleName p)"
    unfolding ms using h1 h2 h3 by simp
  note B = C3_priority_short_circuit [where info = tenInfo and w = exampleWorld
      and botId = ?bot and pre = "take 3 ?M" and m = "?M ! 3" and post = "drop 4 ?M"
      and ext = quietExternals and now = 1000 and key = 8, OF e1 e2 e3,
      THEN conjunct2, THEN conjunct1, THEN mp, OF conjI [OF split3 conjI [OF t3 q3]],
      unfolded Let_def, THEN conjunct1]
  have r2: "fst (checkMessage quietExternals 1000 ?bot 8 tenInfo exampleWorld)
       = \<lparr> blocked = True, blockedBy = Some ''antiSpam'',
           verdict = Some (verdictOf quietExternals 1000 tenInfo ''antiSpam'' exampleWorld) \<rparr>"
    unfolding B n3 by simp
  have c2: "calls (snd (checkMessage quietExternals 1000 ?bot 8 tenInfo exampleWorld))
       = [DetectCall ''antiVirtex'', DetectCall ''antiToxic'', DetectCall ''antiLink'',
          DetectCall ''antiSpam'', HandleCall ''antiSpam'',
          SendMessage ''g1'' (SpamMuteNotice ''6283000'' 10)]"
    by (simp add: ten_checkMessage)
  from f1 f2 r1 d1 c1 m1 h1 h2 h3 h4 r2 c2 show ?thesis by blast
qed

section \<open>The dispatcher's middleware chain\<close>

lemma logCall_frame [simp]:
  "db (logCall c w) = db w" "calls (logCall c w) = calls w @ [c]"
  "sendOk (logCall c w) = sendOk w" "globalCooldowns (logCall c w) = globalCooldowns w"
  "cfg (logCall c w) = cfg w"
  by (simp_all add: logCall_def)

lemma isOnCooldown_frame:
  "authors (snd (isOnCooldown now n c d)) = authors d"
  "owners (snd (isOnCooldown now n c d)) = owners d"
  "commandUsage (snd (isOnCooldown now n c d)) = commandUsage d"
  "errorLog (snd (isOnCooldown now n c d)) = errorLog d"
  by (simp_all add: isOnCooldown_def removeCooldown_def Let_def split: option.splits)

lemma checkCooldown_frame:
  "calls (snd (checkCooldown now s c w)) = calls w"
  "sendOk (snd (checkCooldown now s c w)) = sendOk w"
  "globalCooldowns (snd (checkCooldown now s c w)) = globalCooldowns w"
  "cfg (snd (checkCooldown now s c w)) = cfg w"
  "authors (db (snd (checkCooldown now s c w))) = authors (db w)"
  "owners (db (snd (checkCooldown now s c w))) = owners (db w)"
  "commandUsage (db (snd (checkCooldown now s c w))) = commandUsage (db w)"
  by (simp_all add: checkCooldown_def Let_def split_beta isOnCooldown_frame split: option.splits)

lemma checkCooldown_logCall:
  "fst (checkCooldown now s c (logCall x w)) = fst (checkCooldown now s c w)"
  "db (snd (checkCooldown now s c (logCall x w))) = db (snd (checkCooldown now s c w))"
  by (simp_all add: checkCooldown_def Let_def split_beta split: option.splits)

lemma checkGlobalRateLimit_frame:
  "db (snd (checkGlobalRateLimit now s w)) = db w"
  "calls (snd (checkGlobalRateLimit now s w)) = calls w"
  "sendOk (snd (checkGlobalRateLimit now s w)) = sendOk w"
  "cfg (snd (checkGlobalRateLimit now s w)) = cfg w"
  by (simp_all add: checkGlobalRateLimit_def Let_def)

lemma checkGlobalRateLimit_cong:
  assumes "authors (db w1) = authors (db w2)" and "owners (db w1) = owners (db w2)"
      and "globalCooldowns w1 = globalCooldowns w2"
  shows "fst (checkGlobalRateLimit now s w1) = fst (checkGlobalRateLimit now s w2)"
  using assms by (simp add: checkGlobalRateLimit_def Let_def isAuthorOrOwner_def isAuthor_def
      isOwner_def)

lemma reject_result:
  "fst (reject now jid text w) = False"
  "calls (snd (reject now jid text w)) = calls w @ rejectionCalls jid text w"
  "cooldowns (db (snd (reject now jid text w))) = cooldowns (db w)"
  "commandUsage (db (snd (reject now jid text w))) = commandUsage (db w)"
  "globalCooldowns (snd (reject now jid text w)) = globalCooldowns w"
  by (simp_all add: reject_def executeCatch_def sendMessage_def rejectionCalls_def logError_def
      Let_def)

lemma rejectionCalls_stage:
  "rejectionCalls jid text (logCall x w) = rejectionCalls jid text w"
  "rejectionCalls jid text (snd (checkCooldown now s c w)) = rejectionCalls jid text w"
  "rejectionCalls jid text (snd (checkGlobalRateLimit now s w)) = rejectionCalls jid text w"
  by (simp_all add: rejectionCalls_def checkCooldown_frame checkGlobalRateLimit_frame)

lemma limited_after_stages:
  "fst (checkGlobalRateLimit now s
          (logCall x (logCall y (snd (checkCooldown now s c (logCall z (logCall u w)))))))
     = fst (checkGlobalRateLimit now s w)"
  by (rule checkGlobalRateLimit_cong) (simp_all add: checkCooldown_frame)

lemma handlerInput_calls:
  "calls (handlerInput now s c w)
     = calls w @ [AuthCheck, CooldownCheck, ValidationCheck, RateLimitCheck, HandlerCall c]"
  by (simp add: handlerInput_def checkCooldown_frame checkGlobalRateLimit_frame)

text \<open>
  For a registered command the dispatcher runs authorization, the per-command
  cooldown check, argument validation and the global rate check in this order.  At the
  first check that fails, the dispatcher returns \<open>false\<close>; to the log of calls it has
  added the checks up to the failing one and the sending of the message that check
  returned (and of the generic error text when the transport refused it), and nothing else:
  no later check, no handler call, no usage increment, no cooldown commit.  The usage
  counters are unchanged and the cooldown table is the one the cooldown check left.
  When all four checks pass, the handler is called in a state whose log shows the four
  checks in this order before the handler call, and the dispatcher returns \<open>true\<close>
  exactly when the handler returns.
\<close>

lemma execute_first_failure_stops:
  assumes "commands reg (resolveAlias reg name) = Some cmd"
  shows "let c = resolveAlias reg name; s = mi_sender info; jid = mi_from info;
             auth = checkAuth (db w) s c (cmdRole cmd);
             cool = fst (checkCooldown now s c w);
             dbc = db (snd (checkCooldown now s c w));
             val = validateCommand table c args info;
             lim = fst (checkGlobalRateLimit now s w);
             res = execute reg table now name args info w
         in (\<not> authorized auth \<longrightarrow>
               fst res = False
               \<and> calls (snd res) = calls w @ [AuthCheck] @ rejectionCalls jid (authMessage auth) w
               \<and> cooldowns (db (snd res)) = cooldowns (db w)
               \<and> commandUsage (db (snd res)) = commandUsage (db w)
               \<and> globalCooldowns (snd res) = globalCooldowns w)
          \<and> (authorized auth \<and> onCooldown cool \<longrightarrow>
               fst res = False
               \<and> calls (snd res) = calls w @ [AuthCheck, CooldownCheck]
                                     @ rejectionCalls jid (cooldownMessage cool) w
               \<and> cooldowns (db (snd res)) = cooldowns dbc
               \<and> commandUsage (db (snd res)) = commandUsage (db w)
               \<and> globalCooldowns (snd res) = globalCooldowns w)
          \<and> (authorized auth \<and> \<not> onCooldown cool \<and> \<not> valid val \<longrightarrow>
               fst res = False
               \<and> calls (snd res) = calls w @ [AuthCheck, CooldownCheck, ValidationCheck]
                                     @ rejectionCalls jid (validationMessage val) w
               \<and> cooldowns (db (snd res)) = cooldowns dbc
               \<and> commandUsage (db (snd res)) = commandUsage (db w)
               \<and> globalCooldowns (snd res) = globalCooldowns w)
          \<and> (authorized auth \<and> \<not> onCooldown cool \<and> valid val \<and> lim \<longrightarrow>
               fst res = False
               \<and> calls (snd res) = calls w @ [AuthCheck, CooldownCheck, ValidationCheck,
                                               RateLimitCheck]
                                     @ rejectionCalls jid RateLimitNotice w
               \<and> cooldowns (db (snd res)) = cooldowns dbc
               \<and> commandUsage (db (snd res)) = commandUsage (db w))
          \<and> (authorized auth \<and> \<not> onCooldown cool \<and> valid val \<and> \<not> lim \<longrightarrow>
               calls (handlerInput now s c w)
                 = calls w @ [AuthCheck, CooldownCheck, ValidationCheck, RateLimitCheck,
                              HandlerCall c]
               \<and> fst res = fst (cmdExecute cmd args info (handlerInput now s c w)))"
proof -
  have fails: "fst (executeCatch now jid v) = False" for jid v
    by (simp add: executeCatch_def split_beta)
  show ?thesis
    using assms
    by (simp add: execute_def Let_def split_beta reject_result checkCooldown_frame
        checkCooldown_logCall checkGlobalRateLimit_frame rejectionCalls_stage
        limited_after_stages handlerInput_calls fails)
      (simp add: handlerInput_def)
qed

lemmas dispatch_simps = execute_def reject_def executeCatch_def resolveAlias_def logCall_def
  checkAuth_def checkRole_def roleHierarchy_def checkCooldown_def isOnCooldown_def
  userCooldowns_def removeCooldown_def notOnCooldown_def ceilSeconds_def
  validateCommand_def checkGlobalRateLimit_def applyCooldown_def getCooldownDuration_def
  customCooldowns_def setCooldown_def incrementCommandUsage_def logError_def
  rejectionCalls_def handlerInput_def

lemmas example_simps = exampleRegistry_def exampleRequirements_def memberInfo_def
  replyHandler_def throwingHandler_def exampleWorld_def exampleDb_def coolingWorld_def
  busyWorld_def defaultConfig_def

text \<open>
  Four dispatches of a plain member at time 1000: an Owner command
  (insufficient role); \<open>ai\<close> during its cooldown (4 seconds left); \<open>ai\<close> without
  arguments (validation); \<open>ai\<close> with ten requests already in the rate window.
\<close>

lemma execute_first_failure_examples:
  "commands exampleRegistry (resolveAlias exampleRegistry ''k'')
       = Some \<lparr> cmdRole = Owner, cmdExecute = replyHandler \<rparr>
   \<and> execute exampleRegistry exampleRequirements 1000 ''k'' [''@x''] memberInfo exampleWorld
       = (False, exampleWorld\<lparr>calls := [AuthCheck, SendMessage ''g1'' OwnerOnlyNotice]\<rparr>)
   \<and> commands exampleRegistry (resolveAlias exampleRegistry ''ai'')
       = Some \<lparr> cmdRole = User, cmdExecute = replyHandler \<rparr>
   \<and> execute exampleRegistry exampleRequirements 1000 ''ai'' [''hi''] memberInfo coolingWorld
       = (False, coolingWorld\<lparr>calls := [AuthCheck, CooldownCheck,
                                         SendMessage ''g1'' (CooldownNotice ''ai'' 4)]\<rparr>)
   \<and> execute exampleRegistry exampleRequirements 1000 ''ai'' [] memberInfo exampleWorld
       = (False, exampleWorld\<lparr>calls := [AuthCheck, CooldownCheck, ValidationCheck,
                                         SendMessage ''g1'' (ValidationNotice ''ai'')]\<rparr>)
   \<and> execute exampleRegistry exampleRequirements 1000 ''ai'' [''hi''] memberInfo busyWorld
       = (False, busyWorld\<lparr>calls := [AuthCheck, CooldownCheck, ValidationCheck, RateLimitCheck,
                                      SendMessage ''g1'' RateLimitNotice]\<rparr>)
   \<and> fst (execute exampleRegistry exampleRequirements 1000 ''ai'' [''hi''] memberInfo
          exampleWorld)"
proof -
  have r1: "commands exampleRegistry (resolveAlias exampleRegistry ''k'')
       = Some \<lparr> cmdRole = Owner, cmdExecute = replyHandler \<rparr>"
    by (simp add: exampleRegistry_def resolveAlias_def)
  have r2: "commands exampleRegistry (resolveAlias exampleRegistry ''ai'')
       = Some \<lparr> cmdRole = User, cmdExecute = replyHandler \<rparr>"
    by (simp add: exampleRegistry_def resolveAlias_def)
  note t1 = execute_first_failure_stops [OF r1, of memberInfo exampleWorld 1000 exampleRequirements
      "[''@x'']"]
  note t2 = execute_first_failure_stops [OF r2, of memberInfo coolingWorld 1000 exampleRequirements
      "[''hi'']"]
  note t3 = execute_first_failure_stops [OF r2, of memberInfo exampleWorld 1000 exampleRequirements
      "[]"]
  note t4 = execute_first_failure_stops [OF r2, of memberInfo busyWorld 1000 exampleRequirements
      "[''hi'']"]
  have e1: "execute exampleRegistry exampleRequirements 1000 ''k'' [''@x''] memberInfo exampleWorld
       = (False, exampleWorld\<lparr>calls := [AuthCheck, SendMessage ''g1'' OwnerOnlyNotice]\<rparr>)"
    using t1 by (simp add: dispatch_simps db_simps transport_simps example_simps Let_def)
  have e2: "execute exampleRegistry exampleRequirements 1000 ''ai'' [''hi''] memberInfo coolingWorld
       = (False, coolingWorld\<lparr>calls := [AuthCheck, CooldownCheck,
                                         SendMessage ''g1'' (CooldownNotice ''ai'' 4)]\<rparr>)"
    using t2 by (simp add: dispatch_simps db_simps transport_simps example_simps Let_def)
  have e3: "execute exampleRegistry exampleRequirements 1000 ''ai'' [] memberInfo exampleWorld
       = (False, exampleWorld\<lparr>calls := [AuthCheck, CooldownCheck, ValidationCheck,
                                         SendMessage ''g1'' (ValidationNotice ''ai'')]\<rparr>)"
    using t3 by (simp add: dispatch_simps db_simps transport_simps example_simps Let_def)
  have e4: "execute exampleRegistry exampleRequirements 1000 ''ai'' [''hi''] memberInfo busyWorld
       = (False, busyWorld\<lparr>calls := [AuthCheck, CooldownCheck, ValidationCheck, RateLimitCheck,
                                      SendMessage ''g1'' RateLimitNotice]\<rparr>)"
    using t4 by (simp add: dispatch_simps db_simps transport_simps example_simps Let_def)
  have e5: "fst (execute exampleRegistry exampleRequirements 1000 ''ai'' [''hi''] memberInfo
          exampleWorld)"
    by (simp add: dispatch_simps db_simps transport_simps example_simps Let_def)
  from r1 r2 e1 e2 e3 e4 e5 show ?thesis by blast
qed


text \<open>
  C4.  The author sends \<open>defense\<close> without an argument.  Authorization and the cooldown
  check pass; the validator of \<open>defense\<close> throws, \<open>validateCommand\<close> catches the error
  and returns a result without \<open>message\<close>; the dispatcher stops there and returns
  \<open>false\<close>, with no later check and no handler call, but the message it sends has the
  text \<open>undefined\<close>, not a reason.  With two arguments the same command is rejected
  by the same check with the formatted validation error.
\<close>

theorem C4_validator_throws_no_reason:
  "commands authorRegistry (resolveAlias authorRegistry ''defense'')
       = Some \<lparr> cmdRole = Author, cmdExecute = replyHandler \<rparr>
   \<and> authorized (checkAuth (db exampleWorld) (mi_sender authorInfo) ''defense'' Author)
   \<and> validateCommand (defenseRequirements toUpperCase) ''defense'' [] authorInfo
       = \<lparr> valid = False, validationMessage = UndefinedNotice \<rparr>
   \<and> execute authorRegistry (defenseRequirements toUpperCase) 1000 ''defense'' [] authorInfo
         exampleWorld
       = (False, exampleWorld\<lparr>calls := [AuthCheck, CooldownCheck, ValidationCheck,
            SendMessage ''6281000@s.whatsapp.net'' UndefinedNotice]\<rparr>)
   \<and> execute authorRegistry (defenseRequirements id) 1000 ''defense'' [''normal'', ''now'']
         authorInfo exampleWorld
       = (False, exampleWorld\<lparr>calls := [AuthCheck, CooldownCheck, ValidationCheck,
            SendMessage ''6281000@s.whatsapp.net'' (ValidationNotice ''defense'')]\<rparr>)"
  by (simp add: dispatch_simps db_simps transport_simps authorRegistry_def authorInfo_def
      defenseRequirements_def defenseValidate_def exampleWorld_def exampleDb_def
      defaultConfig_def Let_def)
section \<open>A handler that throws\<close>



section \<open>Authorization of unprivileged users\<close>

text \<open>
  C6.  For a user whose number is in neither the author list nor the owner list, the
  role check and the full authorization check both answer \<open>authorized = false\<close> when
  the required role is Owner and when it is Author.
\<close>

theorem C6_unprivileged_denied:
  assumes "numberOf sender \<notin> set (authors d)" and "numberOf sender \<notin> set (owners d)"
  shows "\<not> authorized (checkRole d (numberOf sender) Owner)
       \<and> \<not> authorized (checkRole d (numberOf sender) Author)
       \<and> \<not> authorized (checkAuth d sender command Owner)
       \<and> \<not> authorized (checkAuth d sender command Author)"
  using assms
  by (simp add: checkAuth_def checkRole_def isAuthor_def isOwner_def roleHierarchy_def Let_def)

text \<open>
  The theorem at a plain member of the example database, next to two requests that
  are authorized: the same member asking for a User command, and the owner asking for
  an Owner command.
\<close>

theorem C6_unprivileged_denied_witness:
  "numberOf ''6283000@s.whatsapp.net'' \<notin> set (authors exampleDb)
   \<and> numberOf ''6283000@s.whatsapp.net'' \<notin> set (owners exampleDb)
   \<and> \<not> authorized (checkRole exampleDb (numberOf ''6283000@s.whatsapp.net'') Owner)
   \<and> \<not> authorized (checkRole exampleDb (numberOf ''6283000@s.whatsapp.net'') Author)
   \<and> \<not> authorized (checkAuth exampleDb ''6283000@s.whatsapp.net'' ''kick'' Owner)
   \<and> \<not> authorized (checkAuth exampleDb ''6283000@s.whatsapp.net'' ''kick'' Author)
   \<and> authorized (checkAuth exampleDb ''6283000@s.whatsapp.net'' ''menu'' User)
   \<and> authorized (checkAuth exampleDb ''6282000@s.whatsapp.net'' ''kick'' Owner)"
proof -
  have a: "numberOf ''6283000@s.whatsapp.net'' \<notin> set (authors exampleDb)"
    by (simp add: numberOf_def exampleDb_def)
  have b: "numberOf ''6283000@s.whatsapp.net'' \<notin> set (owners exampleDb)"
    by (simp add: numberOf_def exampleDb_def)
  have c: "authorized (checkAuth exampleDb ''6283000@s.whatsapp.net'' ''menu'' User)"
    by (simp add: checkAuth_def checkRole_def roleHierarchy_def db_simps exampleDb_def)
  have d: "authorized (checkAuth exampleDb ''6282000@s.whatsapp.net'' ''kick'' Owner)"
    by (simp add: checkAuth_def checkRole_def roleHierarchy_def db_simps exampleDb_def)
  from C6_unprivileged_denied [OF a b, of "''kick''"] a b c d show ?thesis by blast
qed

section \<open>The global rate window\<close>

lemmas rate_simps = checkGlobalRateLimit_def windowCount_def spec_windowCount_def Let_def

lemma check_db: "db (snd (checkGlobalRateLimit t s w)) = db w"
  by (simp add: checkGlobalRateLimit_def Let_def)

lemma check_stored:
  assumes "\<not> isAuthorOrOwner (db w) (numberOf s)"
  shows "stored s (snd (checkGlobalRateLimit t s w))
         = filter (\<lambda>x. t - x < 60000) (stored s w)
           @ (if fst (checkGlobalRateLimit t s w) then [] else [t])"
  using assms by (simp add: checkGlobalRateLimit_def Let_def stored_def)

lemma check_limited:
  assumes "\<not> isAuthorOrOwner (db w) (numberOf s)"
  shows "fst (checkGlobalRateLimit t s w) = (windowCount t s w \<ge> 10)"
  using assms by (simp add: checkGlobalRateLimit_def Let_def windowCount_def)

lemma requestsAt_db: "db (requestsAt s ts w) = db w"
  by (induction ts arbitrary: w) (simp_all add: check_db)

lemma filter_window_mono:
  assumes "t \<le> T"
  shows "filter (\<lambda>x. T - x < (60000::int)) (filter (\<lambda>x. t - x < 60000) xs)
         = filter (\<lambda>x. T - x < 60000) xs"
  using assms by (induction xs) auto

lemma insertedBy_subset: "set (insertedBy s ts w) \<subseteq> set ts"
  by (induction ts arbitrary: w) (auto simp: Let_def split: prod.splits)

lemma window_invariant:
  assumes "\<not> isAuthorOrOwner (db w) (numberOf s)" and "\<forall>t \<in> set ts. t \<le> T"
  shows "filter (\<lambda>x. T - x < 60000) (stored s (requestsAt s ts w))
         = filter (\<lambda>x. T - x < 60000) (stored s w @ insertedBy s ts w)"
  using assms
proof (induction ts arbitrary: w)
  case Nil
  then show ?case by simp
next
  case (Cons t ts)
  let ?w' = "snd (checkGlobalRateLimit t s w)"
  have ex: "\<not> isAuthorOrOwner (db ?w') (numberOf s)"
    using Cons.prems(1) by (simp add: check_db)
  have tT: "t \<le> T" using Cons.prems(2) by simp
  have IH: "filter (\<lambda>x. T - x < 60000) (stored s (requestsAt s ts ?w'))
         = filter (\<lambda>x. T - x < 60000) (stored s ?w' @ insertedBy s ts ?w')"
    using Cons.IH [OF ex] Cons.prems by simp
  show ?case
    using IH check_stored [OF Cons.prems(1), of t] filter_window_mono [OF tT]
    by (simp add: split_beta Let_def)
qed

text \<open>
  C7 (as stated, refuted).  A member sends ten requests at the times 0 to 9 ms; all
  ten are inserted.  At time 60000 the closed interval from 0 to 60000 holds all ten,
  so the claim has the window report 10 and the member blocked.  The code prunes with
  \<open>now - time < 60000\<close>, drops the entry of time 0, reports 9 and does not block.
\<close>

theorem C7_closed_window_counterexample:
  "insertedBy ''6283000@s.whatsapp.net'' [0, 1, 2, 3, 4, 5, 6, 7, 8, 9] exampleWorld
     = [0, 1, 2, 3, 4, 5, 6, 7, 8, 9]
   \<and> spec_windowCount 60000
       (insertedBy ''6283000@s.whatsapp.net'' [0, 1, 2, 3, 4, 5, 6, 7, 8, 9] exampleWorld) = 10
   \<and> windowCount 60000 ''6283000@s.whatsapp.net''
       (requestsAt ''6283000@s.whatsapp.net'' [0, 1, 2, 3, 4, 5, 6, 7, 8, 9] exampleWorld) = 9
   \<and> \<not> fst (checkGlobalRateLimit 60000 ''6283000@s.whatsapp.net''
       (requestsAt ''6283000@s.whatsapp.net'' [0, 1, 2, 3, 4, 5, 6, 7, 8, 9] exampleWorld))"
  by (simp add: rate_simps db_simps exampleWorld_def exampleDb_def)


text \<open>
  C7 (amended).  For a user who is neither author nor owner and starts with an empty
  window, after requests at any times not later than \<open>T\<close>, the count that the window
  reports at \<open>T\<close> is the number of inserted timestamps \<open>t\<close> with
  \<open>T - 60000 < t \<le> T\<close> (the interval is open at its old end), and the check at \<open>T\<close>
  blocks exactly when that count has reached 10.
\<close>

theorem C7_window_count:
  assumes "\<not> isAuthorOrOwner (db w) (numberOf s)"
      and "globalCooldowns w (numberOf s) = None"
      and "\<forall>t \<in> set ts. t \<le> T"
  shows "windowCount T s (requestsAt s ts w)
           = length (filter (\<lambda>t. T - 60000 < t \<and> t \<le> T) (insertedBy s ts w))
       \<and> fst (checkGlobalRateLimit T s (requestsAt s ts w))
           = (10 \<le> windowCount T s (requestsAt s ts w))"
proof -
  have st: "stored s w = []" using assms(2) by (simp add: stored_def)
  have le: "\<forall>t \<in> set (insertedBy s ts w). t \<le> T"
    using insertedBy_subset [of s ts w] assms(3) by blast
  have "windowCount T s (requestsAt s ts w)
          = length (filter (\<lambda>x. T - x < 60000) (stored s (requestsAt s ts w)))"
    by (simp add: windowCount_def stored_def)
  also have "\<dots> = length (filter (\<lambda>x. T - x < 60000) (insertedBy s ts w))"
    using window_invariant [OF assms(1) assms(3)] st by simp
  also have "\<dots> = length (filter (\<lambda>t. T - 60000 < t \<and> t \<le> T) (insertedBy s ts w))"
    using le by (intro arg_cong [where f = length] filter_cong) auto
  finally have a: "windowCount T s (requestsAt s ts w)
           = length (filter (\<lambda>t. T - 60000 < t \<and> t \<le> T) (insertedBy s ts w))" .
  have "\<not> isAuthorOrOwner (db (requestsAt s ts w)) (numberOf s)"
    using assms(1) by (simp add: requestsAt_db)
  from check_limited [OF this] a show ?thesis by simp
qed

text \<open>
  The theorem for the ten requests above: at time 59999 the window still holds all ten
  and the eleventh request is blocked; at time 60000 it holds nine and the request
  passes.
\<close>

theorem C7_window_count_witness:
  "\<not> isAuthorOrOwner (db exampleWorld) (numberOf ''6283000@s.whatsapp.net'')
   \<and> globalCooldowns exampleWorld (numberOf ''6283000@s.whatsapp.net'') = None
   \<and> list_all (\<lambda>t. t \<le> (59999::int)) [0, 1, 2, 3, 4, 5, 6, 7, 8, 9]
   \<and> windowCount 59999 ''6283000@s.whatsapp.net''
        (requestsAt ''6283000@s.whatsapp.net'' [0, 1, 2, 3, 4, 5, 6, 7, 8, 9] exampleWorld)
       = length (filter (\<lambda>t. 59999 - 60000 < t \<and> t \<le> 59999)
           (insertedBy ''6283000@s.whatsapp.net'' [0, 1, 2, 3, 4, 5, 6, 7, 8, 9] exampleWorld))
   \<and> windowCount 59999 ''6283000@s.whatsapp.net''
        (requestsAt ''6283000@s.whatsapp.net'' [0, 1, 2, 3, 4, 5, 6, 7, 8, 9] exampleWorld) = 10
   \<and> fst (checkGlobalRateLimit 59999 ''6283000@s.whatsapp.net''
        (requestsAt ''6283000@s.whatsapp.net'' [0, 1, 2, 3, 4, 5, 6, 7, 8, 9] exampleWorld))
   \<and> windowCount 60000 ''6283000@s.whatsapp.net''
        (requestsAt ''6283000@s.whatsapp.net'' [0, 1, 2, 3, 4, 5, 6, 7, 8, 9] exampleWorld) = 9
   \<and> \<not> fst (checkGlobalRateLimit 60000 ''6283000@s.whatsapp.net''
        (requestsAt ''6283000@s.whatsapp.net'' [0, 1, 2, 3, 4, 5, 6, 7, 8, 9] exampleWorld))"
proof -
  have a: "\<not> isAuthorOrOwner (db exampleWorld) (numberOf ''6283000@s.whatsapp.net'')"
    by (simp add: db_simps exampleWorld_def exampleDb_def)
  have b: "globalCooldowns exampleWorld (numberOf ''6283000@s.whatsapp.net'') = None"
    by (simp add: exampleWorld_def)
  have c: "\<forall>t \<in> set [0, 1, 2, 3, 4, 5, 6, 7, 8, 9]. t \<le> (59999::int)" by simp
  have e1: "windowCount 59999 ''6283000@s.whatsapp.net''
        (requestsAt ''6283000@s.whatsapp.net'' [0, 1, 2, 3, 4, 5, 6, 7, 8, 9] exampleWorld) = 10"
    by (simp add: rate_simps db_simps exampleWorld_def exampleDb_def)
  have e2: "windowCount 60000 ''6283000@s.whatsapp.net''
        (requestsAt ''6283000@s.whatsapp.net'' [0, 1, 2, 3, 4, 5, 6, 7, 8, 9] exampleWorld) = 9"
    by (simp add: rate_simps db_simps exampleWorld_def exampleDb_def)
  have e3: "\<not> fst (checkGlobalRateLimit 60000 ''6283000@s.whatsapp.net''
        (requestsAt ''6283000@s.whatsapp.net'' [0, 1, 2, 3, 4, 5, 6, 7, 8, 9] exampleWorld))"
    by (simp add: rate_simps db_simps exampleWorld_def exampleDb_def)
  note t = C7_window_count [OF a b c]
  have e4: "fst (checkGlobalRateLimit 59999 ''6283000@s.whatsapp.net''
        (requestsAt ''6283000@s.whatsapp.net'' [0, 1, 2, 3, 4, 5, 6, 7, 8, 9] exampleWorld))"
    using t [THEN conjunct2] e1 by (simp only: le_refl)
  have c': "list_all (\<lambda>t. t \<le> (59999::int)) [0, 1, 2, 3, 4, 5, 6, 7, 8, 9]" by simp
  from t [THEN conjunct1] a b c' e1 e2 e3 e4 show ?thesis by blast
qed

section \<open>State read and written by the detectors\<close>

text \<open>
  C9 (as stated, refuted).  The same sender sends the same two-letter message with the
  same timestamp three times (the message is lower-case and trimmed already, so the
  normalisation is the identity on it).  The first call of \<open>AntiSpam.detect\<close> answers
  \<open>detected = false\<close>; the third call, on the tracker the first two left behind,
  answers \<open>detected = true\<close>.
\<close>

theorem C9_detect_twice_counterexample:
  "\<not> detected (fst (AntiSpam_detect id (AntiSpam_settings defaultConfig)
        ''6283000@s.whatsapp.net'' [0x68, 0x69] 1000 Map.empty))
   \<and> detected (fst (AntiSpam_detect id (AntiSpam_settings defaultConfig)
        ''6283000@s.whatsapp.net'' [0x68, 0x69] 1000
        (snd (AntiSpam_detect id (AntiSpam_settings defaultConfig)
           ''6283000@s.whatsapp.net'' [0x68, 0x69] 1000
           (snd (AntiSpam_detect id (AntiSpam_settings defaultConfig)
              ''6283000@s.whatsapp.net'' [0x68, 0x69] 1000 Map.empty))))))"
  by (simp add: spam_simps numberOf_def lineTerminator_def Let_def)

text \<open>
  C9 (amended).  For a fixed input and fixed settings the verdict of
  \<open>AntiSpam.detect\<close> is determined by the sender's tracked messages that are still
  inside the time window: two trackers that agree on them give the same verdict.  The
  call is not pure: it stores that window, extended by the current message, for the
  sender (so the next call counts one message more) and leaves the other senders'
  entries alone.  In \<open>AntiVirtex.detect\<close> a verdict of the length, repeated-character,
  emoji or invisible-character check is the same for every state of the pattern
  objects and leaves that state unchanged.
\<close>

theorem C9_detect_depends_on_window:
  assumes "recentOf st t sender tr1 = recentOf st t sender tr2"
  shows "fst (AntiSpam_detect norm st sender msg t tr1)
           = fst (AntiSpam_detect norm st sender msg t tr2)
       \<and> snd (AntiSpam_detect norm st sender msg t tr1) (numberOf sender)
           = Some (recentOf st t sender tr1 @ [(t, msg)])
       \<and> dcount (fst (AntiSpam_detect norm st sender msg t tr1))
           = length (recentOf st t sender tr1) + 1
       \<and> (other \<noteq> numberOf sender
            \<longrightarrow> snd (AntiSpam_detect norm st sender msg t tr1) other = tr1 other)
       \<and> (detected (fst (AntiVirtex_detect vst lis body))
            \<and> dtype (fst (AntiVirtex_detect vst lis body)) \<noteq> ''virtex_pattern''
            \<longrightarrow> AntiVirtex_detect vst lis' body = (fst (AntiVirtex_detect vst lis body), lis'))"
proof -
  have spam: "fst (AntiSpam_detect norm st sender msg t tr1)
           = fst (AntiSpam_detect norm st sender msg t tr2)
       \<and> snd (AntiSpam_detect norm st sender msg t tr1) (numberOf sender)
           = Some (recentOf st t sender tr1 @ [(t, msg)])
       \<and> dcount (fst (AntiSpam_detect norm st sender msg t tr1))
           = length (recentOf st t sender tr1) + 1
       \<and> (other \<noteq> numberOf sender
            \<longrightarrow> snd (AntiSpam_detect norm st sender msg t tr1) other = tr1 other)"
    using assms by (simp add: AntiSpam_detect_def recentOf_def Let_def)
  have virtex: "detected (fst (AntiVirtex_detect vst lis body))
            \<and> dtype (fst (AntiVirtex_detect vst lis body)) \<noteq> ''virtex_pattern''
            \<longrightarrow> AntiVirtex_detect vst lis' body = (fst (AntiVirtex_detect vst lis body), lis')"
    by (auto simp: AntiVirtex_detect_def AntiVirtex_checkVirtexPatterns_def notDetected_def
        Let_def split: if_splits prod.splits)
  from spam virtex show ?thesis by blast
qed

text \<open>
  The theorem for an empty tracker and a tracker holding one message of the sender
  that is older than the window of ten seconds: the verdicts agree, and the call on
  the empty tracker stores the one current message.  The anti-virtex part at sixty
  times the letter a.
\<close>

theorem C9_detect_depends_on_window_witness:
  "recentOf (AntiSpam_settings defaultConfig) 1000 ''6283000@s.whatsapp.net'' Map.empty
     = recentOf (AntiSpam_settings defaultConfig) 1000 ''6283000@s.whatsapp.net''
         [''6283000'' \<mapsto> [(- 20000, [0x68, 0x69])]]
   \<and> fst (AntiSpam_detect id (AntiSpam_settings defaultConfig) ''6283000@s.whatsapp.net''
        [0x68, 0x69] 1000 Map.empty)
       = fst (AntiSpam_detect id (AntiSpam_settings defaultConfig) ''6283000@s.whatsapp.net''
        [0x68, 0x69] 1000 [''6283000'' \<mapsto> [(- 20000, [0x68, 0x69])]])
   \<and> snd (AntiSpam_detect id (AntiSpam_settings defaultConfig) ''6283000@s.whatsapp.net''
        [0x68, 0x69] 1000 Map.empty) (numberOf ''6283000@s.whatsapp.net'')
       = Some [(1000, [0x68, 0x69])]
   \<and> detected (fst (AntiVirtex_detect (AntiVirtex_settings defaultConfig) [0, 0, 0, 0]
        ([] @ replicate 60 0x61 @ [])))
   \<and> AntiVirtex_detect (AntiVirtex_settings defaultConfig) [0, 5, 0, 0]
        ([] @ replicate 60 0x61 @ [])
       = (fst (AntiVirtex_detect (AntiVirtex_settings defaultConfig) [0, 0, 0, 0]
             ([] @ replicate 60 0x61 @ [])), [0, 5, 0, 0])"
proof -
  let ?st = "AntiSpam_settings defaultConfig"
  let ?vst = "AntiVirtex_settings defaultConfig"
  let ?body = "[] @ replicate 60 (0x61 :: 16 word) @ []"
  have h: "recentOf ?st 1000 ''6283000@s.whatsapp.net'' Map.empty
     = recentOf ?st 1000 ''6283000@s.whatsapp.net'' [''6283000'' \<mapsto> [(- 20000, [0x68, 0x69])]]"
    by (simp add: recentOf_def AntiSpam_settings_def defaultConfig_def numberOf_def)
  have e: "recentOf ?st 1000 ''6283000@s.whatsapp.net'' Map.empty = []"
    by (simp add: recentOf_def)
  have nl: "\<not> lineTerminator 0x61" by (simp add: lineTerminator_def)
  have len: "length ?body \<le> maxLength ?vst"
    by (simp add: AntiVirtex_settings_def defaultConfig_def)
  have n: "(50::nat) \<le> 60" by simp
  have det: "detected (fst (AntiVirtex_detect ?vst [0, 0, 0, 0] ?body))
             \<and> dtype (fst (AntiVirtex_detect ?vst [0, 0, 0, 0] ?body)) \<noteq> ''virtex_pattern''"
    using repeated_run_verdict(1) [OF nl n, of defaultConfig "[]" "[]"]
      repeated_run_verdict(3) [OF nl n len, of "[0, 0, 0, 0]"]
    by simp
  note t = C9_detect_depends_on_window [OF h, of id "[0x68, 0x69]" "''x''" ?vst "[0, 0, 0, 0]" ?body
      "[0, 5, 0, 0]"]
  have t5: "AntiVirtex_detect ?vst [0, 5, 0, 0] ?body
              = (fst (AntiVirtex_detect ?vst [0, 0, 0, 0] ?body), [0, 5, 0, 0])"
    using t det by blast
  have t1: "fst (AntiSpam_detect id ?st ''6283000@s.whatsapp.net'' [0x68, 0x69] 1000 Map.empty)
       = fst (AntiSpam_detect id ?st ''6283000@s.whatsapp.net''
        [0x68, 0x69] 1000 [''6283000'' \<mapsto> [(- 20000, [0x68, 0x69])]])"
    using t by blast
  have t2: "snd (AntiSpam_detect id ?st ''6283000@s.whatsapp.net''
        [0x68, 0x69] 1000 Map.empty) (numberOf ''6283000@s.whatsapp.net'')
       = Some [(1000, [0x68, 0x69])]"
    using t e by simp
  from h t1 t2 det t5 show ?thesis by blast
qed

text \<open>
  The pattern objects do carry state from call to call: five copies of U+202A are
  matched by the second known pattern on a first call, which leaves its \<open>lastIndex\<close>
  at 5; a second call on the same message starts the search there, finds nothing and
  answers \<open>detected = false\<close>.
\<close>

lemma AntiVirtex_detect_pattern_state:
  "AntiVirtex_detect (AntiVirtex_settings defaultConfig) [0, 0, 0, 0] (replicate 5 0x202A)
     = (\<lparr> detected = True, dtype = ''virtex_pattern'', dseverity = Some Critical, dcount = 0 \<rparr>,
        [0, 5, 0, 0])
   \<and> AntiVirtex_detect (AntiVirtex_settings defaultConfig) [0, 5, 0, 0] (replicate 5 0x202A)
     = (notDetected, [0, 0, 0, 0])"
  by (simp add: replicate_5 virtex_simps Let_def)

section \<open>Membership joins in a group without welcome\<close>

text \<open>
  C10.  When the welcome setting handed to the join handler is not enabled, the
  handler returns at once: the process state is unchanged, so no blacklist kick and no
  geographic kick is requested for any joining participant.  The same holds from the
  entry point for membership events, which reads the setting from the database.
\<close>

theorem C10_join_without_welcome:
  assumes "gs_welcome gs \<noteq> Some True"
  shows "handleMemberJoin geo metadataOk groupId participants gs w = w
       \<and> (getGroupSettings (db w) groupId = gs
            \<longrightarrow> handleParticipantsUpdate_add geo metadataOk groupId participants w = w)"
  using assms by (simp add: handleMemberJoin_def handleParticipantsUpdate_add_def)

text \<open>
  The theorem in the protected example group, with a blacklisted and a foreign number
  joining: nothing happens while welcome is off, and with the default settings
  (welcome on) both are kicked.
\<close>

theorem C10_join_without_welcome_witness:
  "gs_welcome (getDefaultGroupSettings\<lparr>gs_welcome := Some False\<rparr>) \<noteq> Some True
   \<and> handleMemberJoin geoDefault True ''g1'' [''6666@s.whatsapp.net'', ''15550001@s.whatsapp.net'']
        (getDefaultGroupSettings\<lparr>gs_welcome := Some False\<rparr>) exampleWorld = exampleWorld
   \<and> calls (handleMemberJoin geoDefault True ''g1''
               [''6666@s.whatsapp.net'', ''15550001@s.whatsapp.net'']
               getDefaultGroupSettings exampleWorld)
      = [KickParticipant ''g1'' [''6666@s.whatsapp.net''],
         SendMessage ''g1'' (BlacklistKickNotice ''6666''),
         KickParticipant ''g1'' [''15550001@s.whatsapp.net''],
         SendMessage ''g1'' (GeoKickNotice ''15550001'')]"
proof -
  have h: "gs_welcome (getDefaultGroupSettings\<lparr>gs_welcome := Some False\<rparr>) \<noteq> Some True"
    by simp
  have c: "calls (handleMemberJoin geoDefault True ''g1''
               [''6666@s.whatsapp.net'', ''15550001@s.whatsapp.net'']
               getDefaultGroupSettings exampleWorld)
      = [KickParticipant ''g1'' [''6666@s.whatsapp.net''],
         SendMessage ''g1'' (BlacklistKickNotice ''6666''),
         KickParticipant ''g1'' [''15550001@s.whatsapp.net''],
         SendMessage ''g1'' (GeoKickNotice ''15550001'')]"
    by (simp add: handleMemberJoin_def checkNewMember_def GeoRestriction_handle_def
        GeoRestriction_allowed_def geoDefault_def isDigit_def module_isEnabled_def
        incrementViolation_def db_simps transport_simps exampleWorld_def exampleDb_def Let_def)
  from C10_join_without_welcome [OF h, of geoDefault True "''g1''"
      "[''6666@s.whatsapp.net'', ''15550001@s.whatsapp.net'']" exampleWorld] h c
  show ?thesis by blast
qed


end
